theory Spec2Isabelle
  imports Main "HOL-Library.Word"
begin

section \<open>Wire types (src/langfuse/trace.go)\<close>

text \<open>
  \<^verbatim>\<open>type EventType string\<close>; an event body is a JSON object, kept here as a list of
  key/value pairs whose values are already rendered texts.  A \<^verbatim>\<open>time.Time\<close> is an
  integer number of nanoseconds.
\<close>

type_synonym EventType = string
type_synonym json_object = "(string \<times> string) list"
type_synonym time = int

record Event =
  ID :: string
  Type :: EventType
  Timestamp :: time
  Body :: json_object
  Metadata :: json_object

record SuccessResult =
  sID :: string
  sStatus :: int
  sMessage :: string

record ErrorResult =
  eID :: string
  eStatus :: int
  eError :: string
  eMessage :: string

record IngestionResponse =
  Successes :: "SuccessResult list"
  Errors :: "ErrorResult list"

text \<open>\<^verbatim>\<open>&IngestionResponse{}\<close>: both slices nil.\<close>

definition emptyResponse :: IngestionResponse where
  "emptyResponse = \<lparr>Successes = [], Errors = []\<rparr>"

section \<open>Errors (src/unnamed/part_000, batcher.go, config.go)\<close>

record LangfuseError =
  Code :: string
  Message :: string
  StatusCode :: int
  retryable :: bool

text \<open>
  The values of Go's \<^verbatim>\<open>error\<close> interface that this package produces:
  \<^verbatim>\<open>*LangfuseError\<close>, \<^verbatim>\<open>fmt.Errorf(...)\<close>, \<^verbatim>\<open>*QueueFullError\<close> and \<^verbatim>\<open>*ConfigError\<close>.
  A nil error is \<open>None\<close> of \<open>error option\<close>.
\<close>

datatype error =
    LangfuseErr LangfuseError
  | Errorf string
  | QueueFullError int
  | ConfigError string string

definition IsRetryable :: "LangfuseError \<Rightarrow> bool" where
  "IsRetryable e = retryable e"

text \<open>\<^verbatim>\<open>fmt.Sprintf("%d", n)\<close> for a Go int: decimal digits, a minus sign when negative.\<close>

definition digit :: "nat \<Rightarrow> char" where
  "digit d = ''0123456789'' ! d"

function decimal :: "nat \<Rightarrow> string" where
  "decimal n = (if n < 10 then [digit n] else decimal (n div 10) @ [digit (n mod 10)])"
  by pat_completeness auto
termination
  by (relation "measure id") auto

declare decimal.simps [simp del]

definition sprintf_d :: "int \<Rightarrow> string" where
  "sprintf_d i = (if i < 0 then CHR ''-'' # decimal (nat (- i)) else decimal (nat i))"

definition StatusTooManyRequests :: int where
  "StatusTooManyRequests = 429"

definition StatusOK :: int where
  "StatusOK = 200"

definition StatusMultiStatus :: int where
  "StatusMultiStatus = 207"

definition NewHTTPError :: "int \<Rightarrow> string \<Rightarrow> LangfuseError" where
  "NewHTTPError statusCode body =
     (let retryable = (statusCode = StatusTooManyRequests \<or> (statusCode \<ge> 500 \<and> statusCode < 600));
          code = ''HTTP_'' @ sprintf_d statusCode;
          code = (if statusCode \<ge> 500 \<and> statusCode < 600 then ''SERVER_ERROR''
                  else if statusCode = StatusTooManyRequests then ''RATE_LIMITED''
                  else if statusCode \<ge> 400 \<and> statusCode < 500 then ''CLIENT_ERROR''
                  else code)
      in \<lparr>Code = code, Message = body, StatusCode = statusCode, retryable = retryable\<rparr>)"

text \<open>The argument is \<^verbatim>\<open>err.Error()\<close> of the underlying failure; \<^verbatim>\<open>StatusCode\<close> keeps its zero value.\<close>

definition NewNetworkError :: "string \<Rightarrow> LangfuseError" where
  "NewNetworkError msg = \<lparr>Code = ''NETWORK_ERROR'', Message = msg, StatusCode = 0, retryable = True\<rparr>"

definition NewConfigError :: "string \<Rightarrow> LangfuseError" where
  "NewConfigError message = \<lparr>Code = ''CONFIG_ERROR'', Message = message, StatusCode = 0, retryable = False\<rparr>"

fun IsRetryableError :: "error option \<Rightarrow> bool" where
  "IsRetryableError None = False"
| "IsRetryableError (Some (LangfuseErr e)) = IsRetryable e"
| "IsRetryableError (Some _) = False"

section \<open>Configuration (src/langfuse/config.go)\<close>

text \<open>
  Durations are nanosecond counts.  The two callbacks are function values that the code
  only tests against nil and starts in a goroutine of their own: the field says whether
  one is installed, and each start is recorded in the batcher (\<open>spawned\<close> below).
\<close>

record Config =
  PublicKey :: string
  SecretKey :: string
  BaseURL :: string
  FlushInterval :: int
  FlushAt :: int
  MaxQueueSize :: int
  Timeout :: int
  SDKIntegration :: string
  SDKVersion :: string
  Enabled :: bool
  Debug :: bool
  MaxRetryAttempts :: int
  RetryBaseDelay :: int
  RetryMaxDelay :: int
  MetricsEnabled :: bool
  OnEventFlushed :: bool
  OnEventDropped :: bool

definition second :: int where
  "second = 1000000000"

definition DefaultConfig :: Config where
  "DefaultConfig =
     \<lparr>PublicKey = '''', SecretKey = '''', BaseURL = ''https://cloud.langfuse.com'',
      FlushInterval = 1 * second, FlushAt = 15, MaxQueueSize = 1000, Timeout = 10 * second,
      SDKIntegration = '''', SDKVersion = ''0.2.0'', Enabled = True, Debug = False,
      MaxRetryAttempts = 5, RetryBaseDelay = 5 * second, RetryMaxDelay = 30 * second,
      MetricsEnabled = False, OnEventFlushed = False, OnEventDropped = False\<rparr>"

definition Validate :: "Config \<Rightarrow> error option" where
  "Validate c =
     (if PublicKey c = '''' then Some (ConfigError ''PublicKey'' ''public key is required'')
      else if SecretKey c = '''' then Some (ConfigError ''SecretKey'' ''secret key is required'')
      else if BaseURL c = '''' then Some (ConfigError ''BaseURL'' ''base URL is required'')
      else if FlushAt c \<le> 0 then Some (ConfigError ''FlushAt'' ''flush at must be positive'')
      else if MaxQueueSize c \<le> 0 then
        Some (ConfigError ''MaxQueueSize'' ''max queue size must be positive'')
      else None)"

section \<open>Metrics (src/langfuse/trace.go)\<close>

text \<open>The counters are \<^verbatim>\<open>int64\<close>: \<^verbatim>\<open>atomic.AddInt64\<close> wraps around, as \<open>+\<close> on words does.\<close>

type_synonym int64 = "64 word"

record FailedEvent =
  fEvent :: Event
  fError :: error
  fAttempt :: int
  fTimestamp :: time

record Metrics =
  eventsEnqueued :: int64
  eventsFlushed :: int64
  eventsSucceeded :: int64
  eventsFailed :: int64
  eventsDropped :: int64
  flushCount :: int64
  retryCount :: int64
  lastFlushTimeUnix :: int64
  failedEvents :: "FailedEvent list"

text \<open>\<^verbatim>\<open>&Metrics{}\<close>: every field at its zero value.\<close>

definition newMetrics :: Metrics where
  "newMetrics =
     \<lparr>eventsEnqueued = 0, eventsFlushed = 0, eventsSucceeded = 0, eventsFailed = 0,
      eventsDropped = 0, flushCount = 0, retryCount = 0, lastFlushTimeUnix = 0,
      failedEvents = []\<rparr>"

definition RecordEnqueued :: "Metrics \<Rightarrow> nat \<Rightarrow> Metrics" where
  "RecordEnqueued m count = m\<lparr>eventsEnqueued := eventsEnqueued m + of_nat count\<rparr>"

text \<open>The last argument is \<^verbatim>\<open>time.Now().UnixNano()\<close>.\<close>

definition RecordFlush :: "Metrics \<Rightarrow> nat \<Rightarrow> nat \<Rightarrow> int64 \<Rightarrow> Metrics" where
  "RecordFlush m success failed now =
     m\<lparr>eventsFlushed := eventsFlushed m + of_nat (success + failed),
       eventsSucceeded := eventsSucceeded m + of_nat success,
       eventsFailed := eventsFailed m + of_nat failed,
       flushCount := flushCount m + 1,
       lastFlushTimeUnix := now\<rparr>"

definition RecordDropped :: "Metrics \<Rightarrow> nat \<Rightarrow> Metrics" where
  "RecordDropped m count = m\<lparr>eventsDropped := eventsDropped m + of_nat count\<rparr>"

definition RecordRetry :: "Metrics \<Rightarrow> Metrics" where
  "RecordRetry m = m\<lparr>retryCount := retryCount m + 1\<rparr>"

text \<open>The last argument is the \<^verbatim>\<open>time.Now()\<close> read by this call.\<close>

definition RecordFailedEvent :: "Metrics \<Rightarrow> Event \<Rightarrow> error \<Rightarrow> int \<Rightarrow> time \<Rightarrow> Metrics" where
  "RecordFailedEvent m event err attempt now =
     (let fe = failedEvents m @ [\<lparr>fEvent = event, fError = err, fAttempt = attempt, fTimestamp = now\<rparr>]
      in m\<lparr>failedEvents := (if length fe > 1000 then drop (length fe - 1000) fe else fe)\<rparr>)"

definition FailedEventCount :: "Metrics \<Rightarrow> nat" where
  "FailedEventCount m = length (failedEvents m)"

section \<open>The client and its transport (src/langfuse/trace.go)\<close>

text \<open>
  What the world outside the program does during one call.  \<open>marshalErr\<close> and
  \<open>requestErr\<close> are the failures of \<^verbatim>\<open>json.Marshal\<close> and \<^verbatim>\<open>http.NewRequestWithContext\<close>;
  \<open>http\<close> is what \<^verbatim>\<open>httpClient.Do\<close> and \<^verbatim>\<open>io.ReadAll\<close> give (an error of either, or a
  status code with the body read); \<open>unmarshal\<close> is \<^verbatim>\<open>json.Unmarshal\<close> on that body.
  \<open>during\<close> lists the events that \<^verbatim>\<open>Add\<close> calls of other producers appended to the
  queue while a flush had released the mutex for its send (see \<open>arrive\<close> below; empty
  when calls run one after another).  \<open>flushTime\<close> and \<open>failTime i\<close> are the readings of \<^verbatim>\<open>time.Now()\<close>
  by \<^verbatim>\<open>RecordFlush\<close> and by the \<open>i\<close>-th \<^verbatim>\<open>RecordFailedEvent\<close> of the call.
  Debug output (\<^verbatim>\<open>log.Printf\<close>) is not part of the state.
\<close>

datatype http_result = DoError string | ReadError string | Response int string

record Env =
  marshalErr :: "string option"
  requestErr :: "string option"
  http :: http_result
  unmarshal :: "string \<Rightarrow> string + IngestionResponse"
  during :: "Event list"
  flushTime :: int64
  failTime :: "nat \<Rightarrow> time"

text \<open>
  The \<^verbatim>\<open>Client\<close> struct without its \<^verbatim>\<open>batcher\<close> pointer (see \<open>ClientPtr\<close> below).
  \<open>requests\<close> records the batches handed to \<^verbatim>\<open>httpClient.Do\<close>, oldest first: the
  network calls made so far.
\<close>

record Client =
  config :: Config
  metrics :: Metrics
  closed :: bool
  requests :: "Event list list"

definition sendIngestion :: "Client \<Rightarrow> Env \<Rightarrow> Event list \<Rightarrow> Client \<times> IngestionResponse option \<times> error option" where
  "sendIngestion c w req =
     (if \<not> Enabled (config c) then (c, Some emptyResponse, None)
      else case marshalErr w of
        Some m \<Rightarrow> (c, None, Some (Errorf (''failed to marshal request: '' @ m)))
      | None \<Rightarrow>
       (case requestErr w of
          Some m \<Rightarrow> (c, None, Some (Errorf (''failed to create request: '' @ m)))
        | None \<Rightarrow>
           (let c' = c\<lparr>requests := requests c @ [req]\<rparr> in
            case http w of
              DoError m \<Rightarrow> (c', None, Some (LangfuseErr (NewNetworkError m)))
            | ReadError m \<Rightarrow> (c', None, Some (LangfuseErr (NewNetworkError m)))
            | Response status body \<Rightarrow>
                if status \<noteq> StatusOK \<and> status \<noteq> StatusMultiStatus then
                  (c', None, Some (LangfuseErr (NewHTTPError status body)))
                else if length body > 0 then
                  (case unmarshal w body of
                     Inl m \<Rightarrow> (c', None, Some (Errorf (''failed to unmarshal response: '' @ m)))
                   | Inr r \<Rightarrow> (c', Some r, None))
                else (c', Some emptyResponse, None))))"

section \<open>The batcher (src/langfuse/batcher.go)\<close>

text \<open>
  \<open>client\<close> is the object behind \<^verbatim>\<open>b.client\<close> and \<open>bconfig\<close> the one behind
  \<^verbatim>\<open>b.config\<close>.  \<open>ticker\<close> says that \<^verbatim>\<open>Start\<close> has created the ticker and the flush
  loop, \<open>doneCh\<close> that the \<^verbatim>\<open>done\<close> channel is closed and the loop has returned.
  \<open>attempts\<close> is the map of the struct, as a list of its entries; it is nil from
  \<^verbatim>\<open>NewBatcher\<close> on.
  \<open>spawned\<close> lists the callbacks started with \<^verbatim>\<open>go\<close>, oldest first.
\<close>

datatype callback = EventDropped nat | EventFlushed nat nat

record Batcher =
  client :: Client
  bconfig :: Config
  queue :: "Event list"
  ticker :: bool
  doneCh :: bool
  attempts :: "(string \<times> int) list"
  spawned :: "callback list"

text \<open>
  \<^verbatim>\<open>make([]Event, 0, n)\<close> panics for a negative capacity: \<open>None\<close>.  (It also panics for
  a capacity that cannot be allocated, a limit of the machine that is not modelled.)
\<close>

definition NewBatcher :: "Client \<Rightarrow> Config \<Rightarrow> Batcher option" where
  "NewBatcher c cfg =
     (if MaxQueueSize cfg < 0 then None
      else Some \<lparr>client = c, bconfig = cfg, queue = [], ticker = False, doneCh = False,
                 attempts = [], spawned = []\<rparr>)"

text \<open>\<^verbatim>\<open>time.NewTicker\<close> panics for a non-positive interval: \<open>None\<close>.\<close>

definition Start :: "Batcher \<Rightarrow> Batcher option" where
  "Start b = (if FlushInterval (bconfig b) \<le> 0 then None else Some (b\<lparr>ticker := True\<rparr>))"

text \<open>
  The guarded call \<^verbatim>\<open>if b.config.MetricsEnabled { b.client.metrics.F(...) }\<close>, which every
  use of the metrics in the batcher has.
\<close>

definition with_metrics :: "(Metrics \<Rightarrow> Metrics) \<Rightarrow> Batcher \<Rightarrow> Batcher" where
  "with_metrics f b =
     (if MetricsEnabled (bconfig b) then b\<lparr>client := (client b)\<lparr>metrics := f (metrics (client b))\<rparr>\<rparr>
      else b)"

text \<open>The loop \<^verbatim>\<open>for _, e := range events { RecordFailedEvent(e, err, 0) }\<close>, from index \<open>i\<close>.\<close>

fun recordFailedEvents :: "Metrics \<Rightarrow> Event list \<Rightarrow> error \<Rightarrow> (nat \<Rightarrow> time) \<Rightarrow> nat \<Rightarrow> Metrics" where
  "recordFailedEvents m [] err clock i = m"
| "recordFailedEvents m (e # es) err clock i =
     recordFailedEvents (RecordFailedEvent m e err 0 (clock i)) es err clock (Suc i)"

text \<open>
  \<^verbatim>\<open>handleFlushError\<close>; its \<^verbatim>\<open>resp\<close> argument is never read and is left out.  The type
  assertion \<^verbatim>\<open>err.(*LangfuseError)\<close> is the case distinction on the error.
\<close>

definition handleFlushError :: "Batcher \<Rightarrow> Event list \<Rightarrow> error \<Rightarrow> Env \<Rightarrow> Batcher" where
  "handleFlushError b events err w =
     (case err of
        LangfuseErr langfuseErr \<Rightarrow>
          if IsRetryable langfuseErr then
            (let b1 = with_metrics RecordRetry b
             in b1\<lparr>queue := events @ queue b1\<rparr>)
          else with_metrics (\<lambda>m. recordFailedEvents m events err (failTime w) 0) b
      | _ \<Rightarrow> with_metrics (\<lambda>m. recordFailedEvents m events err (failTime w) 0) b)"

text \<open>
  While a flush sends, the mutex is free and the queue has just been cleared, so \<^verbatim>\<open>Add\<close>
  calls of other producers go through.  \<open>arrive b es\<close> is the batcher after the calls
  that appended the events \<open>es\<close>: each of them has run \<^verbatim>\<open>RecordEnqueued(1)\<close> under the
  metrics guard and \<^verbatim>\<open>b.queue = append(b.queue, event)\<close>, having found room and stayed
  below \<^verbatim>\<open>FlushAt\<close> (the path of \<^verbatim>\<open>Add\<close> that neither rejects nor flushes).
\<close>

fun arrive :: "Batcher \<Rightarrow> Event list \<Rightarrow> Batcher" where
  "arrive b [] = b"
| "arrive b (e # es) =
     arrive ((with_metrics (\<lambda>m. RecordEnqueued m 1) b)\<lparr>queue := queue b @ [e]\<rparr>) es"

text \<open>
  \<^verbatim>\<open>Flush\<close> takes the queue as its snapshot and clears it under the mutex, sends with the
  mutex released (the events \<open>during w\<close> arrive meanwhile), and then either hands the
  error to \<^verbatim>\<open>handleFlushError\<close> or records the counts of the response.
\<close>

definition Flush :: "Batcher \<Rightarrow> Env \<Rightarrow> Batcher \<times> error option" where
  "Flush b w =
     (if length (queue b) = 0 then (b, None)
      else
        let events = queue b;
            b1 = b\<lparr>queue := []\<rparr>;
            (c', resp, err) = sendIngestion (client b1) w events;
            b2 = arrive (b1\<lparr>client := c'\<rparr>) (during w)
        in case err of
             Some e \<Rightarrow> (handleFlushError b2 events e w, Some e)
           | None \<Rightarrow>
              (let successCount = (case resp of None \<Rightarrow> 0 | Some r \<Rightarrow> length (Successes r));
                   errorCount = (case resp of None \<Rightarrow> 0 | Some r \<Rightarrow> length (Errors r));
                   b3 = with_metrics (\<lambda>m. RecordFlush m successCount errorCount (flushTime w)) b2;
                   b4 = (if OnEventFlushed (bconfig b3)
                         then b3\<lparr>spawned := spawned b3 @ [EventFlushed successCount errorCount]\<rparr>
                         else b3)
               in (b4, None)))"

definition Add :: "Batcher \<Rightarrow> Event \<Rightarrow> Env \<Rightarrow> Batcher \<times> error option" where
  "Add b event w =
     (let b1 = with_metrics (\<lambda>m. RecordEnqueued m 1) b in
      if int (length (queue b1)) \<ge> MaxQueueSize (bconfig b1) then
        (let b2 = with_metrics (\<lambda>m. RecordDropped m 1) b1;
             b3 = (if OnEventDropped (bconfig b2)
                   then b2\<lparr>spawned := spawned b2 @ [EventDropped 1]\<rparr> else b2)
         in (b3, Some (QueueFullError (MaxQueueSize (bconfig b3)))))
      else
        (let b2 = b1\<lparr>queue := queue b1 @ [event]\<rparr> in
         if int (length (queue b2)) \<ge> FlushAt (bconfig b2) then (fst (Flush b2 w), None)
         else (b2, None)))"

text \<open>
  \<^verbatim>\<open>Batcher.Close\<close>: closing a closed channel panics (\<open>None\<close>); otherwise the loop is
  told to stop and waited for, and the remaining events are flushed.
\<close>

definition BatcherClose :: "Batcher \<Rightarrow> Env \<Rightarrow> (Batcher \<times> error option) option" where
  "BatcherClose b w = (if doneCh b then None else Some (Flush (b\<lparr>doneCh := True\<rparr>) w))"

text \<open>
  One round of the background loop: on a tick it flushes and drops the error; once
  \<open>doneCh\<close> is set, or before \<^verbatim>\<open>Start\<close>, there is no loop.
\<close>

definition tick :: "Batcher \<Rightarrow> Env \<Rightarrow> Batcher" where
  "tick b w = (if ticker b \<and> \<not> doneCh b then fst (Flush b w) else b)"

section \<open>Client lifecycle (src/langfuse/trace.go)\<close>

text \<open>
  A \<^verbatim>\<open>*Client\<close> as its holder sees it.  \<^verbatim>\<open>c.batcher\<close> is either nil, and the client
  stands alone, or the one batcher made by \<^verbatim>\<open>NewClient\<close>, whose \<^verbatim>\<open>client\<close> field points
  back to \<^verbatim>\<open>c\<close>: then the client is the \<open>client\<close> field of that batcher.
\<close>

datatype ClientPtr = NoBatcher Client | WithBatcher Batcher

fun self :: "ClientPtr \<Rightarrow> Client" where
  "self (NoBatcher c) = c"
| "self (WithBatcher b) = client b"

fun batcher :: "ClientPtr \<Rightarrow> Batcher option" where
  "batcher (NoBatcher c) = None"
| "batcher (WithBatcher b) = Some b"

text \<open>
  \<^verbatim>\<open>NewClient\<close>: \<open>None\<close> is a panic (of \<^verbatim>\<open>NewBatcher\<close> or \<^verbatim>\<open>Start\<close>), \<open>Some (Inl e)\<close> the
  error return, \<open>Some (Inr p)\<close> the new client.  A nil \<^verbatim>\<open>config\<close> is \<open>None\<close> of
  \<open>Config option\<close>.
\<close>

definition NewClient :: "Config option \<Rightarrow> (error + ClientPtr) option" where
  "NewClient config0 =
     (let cfg = (case config0 of None \<Rightarrow> DefaultConfig | Some c \<Rightarrow> c) in
      case Validate cfg of
        Some err \<Rightarrow> Some (Inl err)
      | None \<Rightarrow>
         (let c = \<lparr>config = cfg, metrics = newMetrics, closed = False, requests = []\<rparr> in
          if Enabled cfg then
            (case NewBatcher c cfg of
               None \<Rightarrow> None
             | Some b \<Rightarrow> (case Start b of None \<Rightarrow> None | Some b' \<Rightarrow> Some (Inr (WithBatcher b'))))
          else Some (Inr (NoBatcher c))))"

text \<open>
  \<^verbatim>\<open>enqueue\<close>, \<^verbatim>\<open>Client.Flush\<close> and \<^verbatim>\<open>Client.Close\<close>.  \<open>None\<close> is a panic: the nil
  dereference of \<^verbatim>\<open>c.batcher.Add\<close> on an enabled client without a batcher, or the panic
  of \<^verbatim>\<open>Batcher.Close\<close>.
\<close>

fun enqueue :: "ClientPtr \<Rightarrow> Event \<Rightarrow> Env \<Rightarrow> (ClientPtr \<times> error option) option" where
  "enqueue (NoBatcher c) event w =
     (if closed c then Some (NoBatcher c, Some (Errorf ''client is closed''))
      else if \<not> Enabled (config c) then Some (NoBatcher c, None)
      else None)"
| "enqueue (WithBatcher b) event w =
     (if closed (client b) then Some (WithBatcher b, Some (Errorf ''client is closed''))
      else if \<not> Enabled (config (client b)) then Some (WithBatcher b, None)
      else (let (b', err) = Add b event w in Some (WithBatcher b', err)))"

fun ClientFlush :: "ClientPtr \<Rightarrow> Env \<Rightarrow> ClientPtr \<times> error option" where
  "ClientFlush (NoBatcher c) w = (NoBatcher c, None)"
| "ClientFlush (WithBatcher b) w =
     (if \<not> Enabled (config (client b)) then (WithBatcher b, None)
      else (let (b', err) = Flush b w in (WithBatcher b', err)))"

fun ClientClose :: "ClientPtr \<Rightarrow> Env \<Rightarrow> (ClientPtr \<times> error option) option" where
  "ClientClose (NoBatcher c) w =
     (if closed c then Some (NoBatcher c, None)
      else Some (NoBatcher (c\<lparr>closed := True\<rparr>), None))"
| "ClientClose (WithBatcher b) w =
     (if closed (client b) then Some (WithBatcher b, None)
      else
        (case BatcherClose (b\<lparr>client := (client b)\<lparr>closed := True\<rparr>\<rparr>) w of
           None \<Rightarrow> None
         | Some (b', err) \<Rightarrow> Some (WithBatcher b', err)))"

section \<open>Runs, observations and sample inputs\<close>

text \<open>A sequence of \<^verbatim>\<open>Add\<close> calls, each with what the world does during it.\<close>

fun adds :: "Batcher \<Rightarrow> (Event \<times> Env) list \<Rightarrow> Batcher" where
  "adds b [] = b"
| "adds b ((e, w) # cs) = adds (fst (Add b e w)) cs"

text \<open>The error and the response that the send of a flush of \<open>b\<close> comes back with.\<close>

definition sendErr :: "Batcher \<Rightarrow> Env \<Rightarrow> error option" where
  "sendErr b w = snd (snd (sendIngestion (client b) w (queue b)))"

definition sendResp :: "Batcher \<Rightarrow> Env \<Rightarrow> IngestionResponse option" where
  "sendResp b w = fst (snd (sendIngestion (client b) w (queue b)))"

text \<open>The same for a client, whatever the batch: the transport succeeds when it returns no error.\<close>

definition succeeds :: "Client \<Rightarrow> Env \<Rightarrow> bool" where
  "succeeds c w = (snd (snd (sendIngestion c w [])) = None)"

definition answer :: "Client \<Rightarrow> Env \<Rightarrow> IngestionResponse option" where
  "answer c w = fst (snd (sendIngestion c w []))"

text \<open>\<^verbatim>\<open>successCount\<close> and \<^verbatim>\<open>errorCount\<close> of \<^verbatim>\<open>Flush\<close>.\<close>

definition reported :: "IngestionResponse option \<Rightarrow> nat \<times> nat" where
  "reported resp = (case resp of None \<Rightarrow> (0, 0) | Some r \<Rightarrow> (length (Successes r), length (Errors r)))"

text \<open>The last \<open>n\<close> elements of a list: what a buffer of capacity \<open>n\<close> that evicts its oldest entries keeps.\<close>

definition keepLast :: "nat \<Rightarrow> 'a list \<Rightarrow> 'a list" where
  "keepLast n xs = drop (length xs - n) xs"

text \<open>The records \<^verbatim>\<open>handleFlushError\<close> makes of a discarded snapshot, the first one at clock index \<open>i\<close>.\<close>

fun failedOf :: "error \<Rightarrow> (nat \<Rightarrow> time) \<Rightarrow> nat \<Rightarrow> Event list \<Rightarrow> FailedEvent list" where
  "failedOf err clock i [] = []"
| "failedOf err clock i (e # es) =
     \<lparr>fEvent = e, fError = err, fAttempt = 0, fTimestamp = clock i\<rparr> # failedOf err clock (Suc i) es"

text \<open>Two configurations that differ in the three retry settings only, and the same for a batcher with its client.\<close>

definition setRetry :: "int \<Rightarrow> int \<Rightarrow> int \<Rightarrow> Config \<Rightarrow> Config" where
  "setRetry a d x cfg = cfg\<lparr>MaxRetryAttempts := a, RetryBaseDelay := d, RetryMaxDelay := x\<rparr>"

definition retune :: "int \<Rightarrow> int \<Rightarrow> int \<Rightarrow> Batcher \<Rightarrow> Batcher" where
  "retune a d x b =
     b\<lparr>bconfig := setRetry a d x (bconfig b),
       client := (client b)\<lparr>config := setRetry a d x (config (client b))\<rparr>\<rparr>"

text \<open>Sample inputs: events, the default configuration with keys, a client and a batcher as
  \<^verbatim>\<open>NewClient\<close> and \<^verbatim>\<open>NewBatcher\<close> make them, and some behaviours of the network.\<close>

definition ev :: "nat \<Rightarrow> Event" where
  "ev i = \<lparr>ID = decimal i, Type = ''trace-create'', Timestamp = int i, Body = [(''id'', decimal i)], Metadata = []\<rparr>"

definition keyedConfig :: Config where
  "keyedConfig = DefaultConfig\<lparr>PublicKey := ''pk-lf-1'', SecretKey := ''sk-lf-1''\<rparr>"

definition newClient :: "Config \<Rightarrow> Client" where
  "newClient cfg = \<lparr>config = cfg, metrics = newMetrics, closed = False, requests = []\<rparr>"

definition newBatcher :: "Config \<Rightarrow> Batcher" where
  "newBatcher cfg =
     \<lparr>client = newClient cfg, bconfig = cfg, queue = [], ticker = False, doneCh = False,
      attempts = [], spawned = []\<rparr>"

definition replies :: "int \<Rightarrow> string \<Rightarrow> IngestionResponse \<Rightarrow> Env" where
  "replies status body r =
     \<lparr>marshalErr = None, requestErr = None, http = Response status body,
      unmarshal = (\<lambda>_. Inr r), during = [], flushTime = 1700000000,
      failTime = (\<lambda>i. 1700000000 + int i)\<rparr>"

definition networkDown :: Env where
  "networkDown =
     \<lparr>marshalErr = None, requestErr = None, http = DoError ''connection refused'',
      unmarshal = (\<lambda>_. Inl ''unexpected end of JSON input''), during = [],
      flushTime = 1700000000, failTime = (\<lambda>i. 1700000000 + int i)\<rparr>"

definition accepted :: "nat \<Rightarrow> IngestionResponse" where
  "accepted n =
     \<lparr>Successes = map (\<lambda>i. \<lparr>sID = decimal i, sStatus = 201, sMessage = ''ok''\<rparr>) [0..<n],
      Errors = []\<rparr>"

definition smallConfig :: Config where
  "smallConfig = keyedConfig\<lparr>MaxQueueSize := 2\<rparr>"

definition meteredConfig :: Config where
  "meteredConfig = keyedConfig\<lparr>MetricsEnabled := True\<rparr>"

definition startedBatcher :: "Config \<Rightarrow> Batcher" where
  "startedBatcher cfg = (newBatcher cfg)\<lparr>ticker := True\<rparr>"

definition twoCalls :: "(Event \<times> Env) list" where
  "twoCalls = [(ev 1, networkDown), (ev 2, networkDown)]"

definition okCalls :: "(Event \<times> Env) list" where
  "okCalls = [(ev 1, replies 200 ''{...}'' (accepted 2)), (ev 2, replies 200 ''{...}'' (accepted 2))]"

definition emptyCalls :: "(Event \<times> Env) list" where
  "emptyCalls = [(ev 1, replies 200 [] emptyResponse), (ev 2, replies 200 [] emptyResponse)]"

section \<open>Basic facts\<close>

lemmas sample_defs = smallConfig_def meteredConfig_def keyedConfig_def DefaultConfig_def
  newBatcher_def newClient_def startedBatcher_def newMetrics_def networkDown_def replies_def
  second_def

lemmas code_defs = Add_def Flush_def handleFlushError_def with_metrics_def sendIngestion_def
  NewBatcher_def Start_def NewClient_def Validate_def Let_def RecordEnqueued_def RecordDropped_def
  RecordRetry_def RecordFlush_def RecordFailedEvent_def NewNetworkError_def NewHTTPError_def
  IsRetryable_def StatusOK_def StatusMultiStatus_def StatusTooManyRequests_def emptyResponse_def

lemmas more_defs = accepted_def succeeds_def answer_def reported_def

lemma NewClient_keyed:
  "NewClient (Some keyedConfig) = Some (Inr (WithBatcher (startedBatcher keyedConfig)))"
  by (simp add: sample_defs code_defs)

lemma NewClient_small:
  "NewClient (Some smallConfig) = Some (Inr (WithBatcher (startedBatcher smallConfig)))"
  by (simp add: sample_defs code_defs)

lemma sendIngestion_frame:
  "config (fst (sendIngestion c w req)) = config c \<and>
   metrics (fst (sendIngestion c w req)) = metrics c \<and>
   closed (fst (sendIngestion c w req)) = closed c"
  by (simp add: sendIngestion_def Let_def split: option.splits http_result.splits sum.splits)

lemma sendIngestion_err_indep:
  "Enabled (config c) = Enabled (config c') \<Longrightarrow>
   snd (sendIngestion c w req) = snd (sendIngestion c' w req')"
  by (simp add: sendIngestion_def Let_def split: option.splits http_result.splits sum.splits)

lemma with_metrics_simps [simp]:
  "queue (with_metrics f b) = queue b"
  "bconfig (with_metrics f b) = bconfig b"
  "ticker (with_metrics f b) = ticker b"
  "doneCh (with_metrics f b) = doneCh b"
  "attempts (with_metrics f b) = attempts b"
  "spawned (with_metrics f b) = spawned b"
  "config (client (with_metrics f b)) = config (client b)"
  "closed (client (with_metrics f b)) = closed (client b)"
  "requests (client (with_metrics f b)) = requests (client b)"
  "metrics (client (with_metrics f b)) =
     (if MetricsEnabled (bconfig b) then f (metrics (client b)) else metrics (client b))"
  by (simp_all add: with_metrics_def)

lemma arrive_queue [simp]: "queue (arrive b es) = queue b @ es"
  by (induction b es rule: arrive.induct) simp_all

lemma arrive_frame [simp]:
  "bconfig (arrive b es) = bconfig b"
  "ticker (arrive b es) = ticker b"
  "doneCh (arrive b es) = doneCh b"
  "attempts (arrive b es) = attempts b"
  "spawned (arrive b es) = spawned b"
  "config (client (arrive b es)) = config (client b)"
  "closed (client (arrive b es)) = closed (client b)"
  "requests (client (arrive b es)) = requests (client b)"
  by (induction b es rule: arrive.induct; simp)+

lemma arrive_metrics:
  "metrics (client (arrive b es)) =
     (if MetricsEnabled (bconfig b) then RecordEnqueued (metrics (client b)) (length es)
      else metrics (client b))"
proof (induction b es rule: arrive.induct)
  case (1 b)
  then show ?case by (simp add: RecordEnqueued_def)
next
  case (2 b e es)
  then show ?case by (simp add: RecordEnqueued_def add.assoc add.commute)
qed

lemma RecordEnqueued_fields [simp]:
  "eventsFlushed (RecordEnqueued m n) = eventsFlushed m"
  "eventsSucceeded (RecordEnqueued m n) = eventsSucceeded m"
  "eventsFailed (RecordEnqueued m n) = eventsFailed m"
  "eventsDropped (RecordEnqueued m n) = eventsDropped m"
  "flushCount (RecordEnqueued m n) = flushCount m"
  "retryCount (RecordEnqueued m n) = retryCount m"
  "lastFlushTimeUnix (RecordEnqueued m n) = lastFlushTimeUnix m"
  "failedEvents (RecordEnqueued m n) = failedEvents m"
  "eventsEnqueued (RecordEnqueued m n) = eventsEnqueued m + of_nat n"
  by (simp_all add: RecordEnqueued_def)

lemma handleFlushError_queue:
  "queue (handleFlushError b events err w) =
     (if IsRetryableError (Some err) then events @ queue b else queue b)"
  by (cases err) (simp_all add: handleFlushError_def Let_def)

lemma handleFlushError_frame [simp]:
  "bconfig (handleFlushError b events err w) = bconfig b"
  "ticker (handleFlushError b events err w) = ticker b"
  "doneCh (handleFlushError b events err w) = doneCh b"
  "attempts (handleFlushError b events err w) = attempts b"
  "spawned (handleFlushError b events err w) = spawned b"
  "config (client (handleFlushError b events err w)) = config (client b)"
  "closed (client (handleFlushError b events err w)) = closed (client b)"
  "requests (client (handleFlushError b events err w)) = requests (client b)"
  by (cases err; simp add: handleFlushError_def Let_def)+

lemma handleFlushError_metrics:
  "metrics (client (handleFlushError b events err w)) =
     (if \<not> MetricsEnabled (bconfig b) then metrics (client b)
      else if IsRetryableError (Some err) then RecordRetry (metrics (client b))
      else recordFailedEvents (metrics (client b)) events err (failTime w) 0)"
  by (cases err) (simp_all add: handleFlushError_def Let_def)

lemma Flush_empty: "queue b = [] \<Longrightarrow> Flush b w = (b, None)"
  by (simp add: Flush_def)

lemma Flush_err: "queue b \<noteq> [] \<Longrightarrow> snd (Flush b w) = sendErr b w"
  by (simp add: Flush_def sendErr_def Let_def split: prod.splits option.splits)

lemma Flush_queue:
  "queue b \<noteq> [] \<Longrightarrow>
   queue (fst (Flush b w)) =
     (if IsRetryableError (sendErr b w) then queue b @ during w else during w)"
  by (simp add: Flush_def sendErr_def Let_def handleFlushError_queue
      split: prod.splits option.splits)

lemma Flush_frame [simp]:
  "bconfig (fst (Flush b w)) = bconfig b"
  "ticker (fst (Flush b w)) = ticker b"
  "doneCh (fst (Flush b w)) = doneCh b"
  "attempts (fst (Flush b w)) = attempts b"
  "config (client (fst (Flush b w))) = config (client b)"
  "closed (client (fst (Flush b w))) = closed (client b)"
  using sendIngestion_frame[of "client b" w "queue b"]
  by (auto simp add: Flush_def Let_def split: prod.splits option.splits)

lemma Flush_metrics_err:
  "queue b \<noteq> [] \<Longrightarrow> sendErr b w = Some e \<Longrightarrow>
   metrics (client (fst (Flush b w))) =
     (if \<not> MetricsEnabled (bconfig b) then metrics (client b)
      else if IsRetryableError (Some e) then
        RecordRetry (RecordEnqueued (metrics (client b)) (length (during w)))
      else recordFailedEvents (RecordEnqueued (metrics (client b)) (length (during w)))
             (queue b) e (failTime w) 0)"
  using sendIngestion_frame[of "client b" w "queue b"]
  by (auto simp add: Flush_def sendErr_def Let_def handleFlushError_metrics arrive_metrics
      split: prod.splits option.splits)

lemma Flush_metrics_ok:
  "queue b \<noteq> [] \<Longrightarrow> sendErr b w = None \<Longrightarrow>
   metrics (client (fst (Flush b w))) =
     (if \<not> MetricsEnabled (bconfig b) then metrics (client b)
      else RecordFlush (RecordEnqueued (metrics (client b)) (length (during w)))
             (fst (reported (sendResp b w))) (snd (reported (sendResp b w))) (flushTime w))"
  using sendIngestion_frame[of "client b" w "queue b"]
  by (auto simp add: Flush_def sendErr_def sendResp_def reported_def Let_def arrive_metrics
      split: prod.splits option.splits)

subsection \<open>The failed-event buffer\<close>

lemma keepLast_length: "length (keepLast n xs) = min n (length xs)"
  by (simp add: keepLast_def)

lemma keepLast_absorb: "keepLast n (keepLast n xs @ ys) = keepLast n (xs @ ys)"
proof -
  have "keepLast n xs @ ys = drop (length xs - n) (xs @ ys)"
    by (simp add: keepLast_def)
  moreover have "length (xs @ ys) - (length xs - n) - n + (length xs - n) = length (xs @ ys) - n"
    by simp
  ultimately show ?thesis
    by (simp add: keepLast_def)
qed

lemma RecordFailedEvent_keepLast:
  "RecordFailedEvent m e err a t =
     m\<lparr>failedEvents := keepLast 1000
          (failedEvents m @ [\<lparr>fEvent = e, fError = err, fAttempt = a, fTimestamp = t\<rparr>])\<rparr>"
  by (simp add: RecordFailedEvent_def keepLast_def Let_def)

lemma recordFailedEvents_failedEvents:
  "failedEvents (recordFailedEvents m es err clock i) =
     (if es = [] then failedEvents m else keepLast 1000 (failedEvents m @ failedOf err clock i es))"
proof (induction es arbitrary: m i)
  case Nil
  show ?case by simp
next
  case (Cons e es)
  show ?case
  proof (cases "es = []")
    case True
    then show ?thesis by (simp add: RecordFailedEvent_keepLast)
  next
    case False
    then show ?thesis
      using Cons.IH [of "RecordFailedEvent m e err 0 (clock i)" "Suc i"]
      by (simp add: RecordFailedEvent_keepLast keepLast_absorb)
  qed
qed

lemma recordFailedEvents_shape:
  "\<exists>fe. recordFailedEvents m es err clock i = m\<lparr>failedEvents := fe\<rparr>"
proof (induction es arbitrary: m i)
  case Nil
  have "m = m\<lparr>failedEvents := failedEvents m\<rparr>" by simp
  then show ?case by (metis recordFailedEvents.simps(1))
next
  case (Cons e es)
  obtain fe where "recordFailedEvents (RecordFailedEvent m e err 0 (clock i)) es err clock (Suc i)
      = (RecordFailedEvent m e err 0 (clock i))\<lparr>failedEvents := fe\<rparr>"
    using Cons.IH by blast
  then have "recordFailedEvents m (e # es) err clock i = m\<lparr>failedEvents := fe\<rparr>"
    by (simp add: RecordFailedEvent_keepLast)
  then show ?case by blast
qed

lemma recordFailedEvents_others:
  "recordFailedEvents m es err clock i =
     m\<lparr>failedEvents := failedEvents (recordFailedEvents m es err clock i)\<rparr>"
proof -
  obtain fe where e: "recordFailedEvents m es err clock i = m\<lparr>failedEvents := fe\<rparr>"
    using recordFailedEvents_shape by blast
  have "m\<lparr>failedEvents := fe\<rparr> = m\<lparr>failedEvents := failedEvents (m\<lparr>failedEvents := fe\<rparr>)\<rparr>"
    by simp
  then show ?thesis using e by simp
qed

lemma failedOf_events: "map fEvent (failedOf err clock i es) = es"
  by (induction es arbitrary: i) simp_all

lemma failedOf_length: "length (failedOf err clock i es) = length es"
  by (induction es arbitrary: i) simp_all

subsection \<open>Adding below and at capacity\<close>

lemma Add_bconfig [simp]: "bconfig (fst (Add b e w)) = bconfig b"
  by (simp add: Add_def Let_def)

lemma Add_full:
  "MaxQueueSize (bconfig b) \<le> int (length (queue b)) \<Longrightarrow>
   snd (Add b e w) = Some (QueueFullError (MaxQueueSize (bconfig b))) \<and>
   queue (fst (Add b e w)) = queue b"
  by (simp add: Add_def Let_def)

lemma arrive_is_Add:
  "int (length (queue b)) < MaxQueueSize (bconfig b) \<Longrightarrow>
   int (length (queue b)) + 1 < FlushAt (bconfig b) \<Longrightarrow>
   Add b e w = (arrive b [e], None)"
  by (simp add: Add_def Let_def)

lemma Add_queue_bound:
  assumes "during w = []" and "int (length (queue b)) \<le> MaxQueueSize (bconfig b)"
  shows "int (length (queue (fst (Add b e w)))) \<le> MaxQueueSize (bconfig b)"
proof (cases "MaxQueueSize (bconfig b) \<le> int (length (queue b))")
  case True
  then show ?thesis using assms Add_full [OF True, of e w] by simp
next
  case False
  let ?b2 = "(with_metrics (\<lambda>m. RecordEnqueued m 1) b)\<lparr>queue := queue b @ [e]\<rparr>"
  have q: "queue ?b2 \<noteq> []" by simp
  have "queue (fst (Flush ?b2 w)) = queue ?b2 \<or> queue (fst (Flush ?b2 w)) = []"
    using Flush_queue [OF q, of w] assms(1) by simp
  then have "int (length (queue (fst (Flush ?b2 w)))) \<le> MaxQueueSize (bconfig b)"
    using False by auto
  then show ?thesis using False
    by (simp add: Add_def Let_def)
qed

lemma adds_bconfig [simp]: "bconfig (adds b cs) = bconfig b"
  by (induction b cs rule: adds.induct) simp_all

lemma adds_queue_bound:
  "\<forall>(e, w) \<in> set cs. during w = [] \<Longrightarrow>
   int (length (queue b)) \<le> MaxQueueSize (bconfig b) \<Longrightarrow>
   int (length (queue (adds b cs))) \<le> MaxQueueSize (bconfig b)"
proof (induction b cs rule: adds.induct)
  case (1 b)
  then show ?case by simp
next
  case (2 b e w cs)
  have "during w = []" using "2.prems"(1) by simp
  then have "int (length (queue (fst (Add b e w)))) \<le> MaxQueueSize (bconfig (fst (Add b e w)))"
    using Add_queue_bound "2.prems"(2) by simp
  then show ?case using "2.IH" "2.prems"(1) by simp
qed

section \<open>The queue bound\<close>

text \<open>
  As long as calls run one after another the bound holds.  Take a batcher as
  \<^verbatim>\<open>NewBatcher\<close> makes it and \<^verbatim>\<open>Add\<close> calls during whose sends nothing arrives: after every
  call the queue holds at most \<^verbatim>\<open>MaxQueueSize\<close> events, and on a queue that holds
  \<^verbatim>\<open>MaxQueueSize\<close> events \<^verbatim>\<open>Add\<close> returns \<^verbatim>\<open>QueueFullError{MaxQueueSize}\<close> and stores nothing.
\<close>

lemma sequential_adds_stay_within_capacity:
  assumes fresh: "NewBatcher c cfg = Some b0"
    and seq: "\<forall>(e, w) \<in> set cs. during w = []"
  shows "(\<forall>n. int (length (queue (adds b0 (take n cs)))) \<le> MaxQueueSize cfg) \<and>
         (\<forall>e w. int (length (queue (adds b0 cs))) = MaxQueueSize cfg \<longrightarrow>
            snd (Add (adds b0 cs) e w) = Some (QueueFullError (MaxQueueSize cfg)) \<and>
            queue (fst (Add (adds b0 cs) e w)) = queue (adds b0 cs))"
proof -
  have b0: "bconfig b0 = cfg" "queue b0 = []" "0 \<le> MaxQueueSize cfg"
    using fresh by (auto simp add: NewBatcher_def split: if_splits)
  have "int (length (queue (adds b0 (take n cs)))) \<le> MaxQueueSize cfg" for n
  proof -
    have "\<forall>(e, w) \<in> set (take n cs). during w = []"
      using seq by (meson in_set_takeD)
    then show ?thesis
      using adds_queue_bound [of "take n cs" b0] b0 by simp
  qed
  moreover have "snd (Add (adds b0 cs) e w) = Some (QueueFullError (MaxQueueSize cfg)) \<and>
            queue (fst (Add (adds b0 cs) e w)) = queue (adds b0 cs)"
    if "int (length (queue (adds b0 cs))) = MaxQueueSize cfg" for e w
    using Add_full [of "adds b0 cs" e w] that b0 by simp
  ultimately show ?thesis by blast
qed

text \<open>
  C1.  The bound does not hold for every sequence of \<^verbatim>\<open>Add\<close> calls.  \<^verbatim>\<open>Add\<close> looks at
  the capacity before it appends, but the requeue in \<^verbatim>\<open>handleFlushError\<close> puts the
  snapshot in front of whatever the queue holds by then and does not look at it.  Both
  runs below have \<^verbatim>\<open>MaxQueueSize = 2\<close> and a network that refuses connections, a retryable
  failure.  In the first, \<^verbatim>\<open>FlushAt = 2\<close>: the second \<^verbatim>\<open>Add\<close> flushes, during its send a
  third \<^verbatim>\<open>Add\<close> by another producer finds the queue empty and is accepted, and when the
  second \<^verbatim>\<open>Add\<close> returns nil the queue holds three events.  In the second,
  \<^verbatim>\<open>FlushAt = 15\<close> and the queue is full: the flush loop ticks, during its send two
  \<^verbatim>\<open>Add\<close> calls are accepted, and after the tick the queue holds four events.
\<close>

theorem requeue_exceeds_capacity:
  "MaxQueueSize (smallConfig\<lparr>FlushAt := 2\<rparr>) = 2 \<and>
   queue (adds (startedBatcher (smallConfig\<lparr>FlushAt := 2\<rparr>)) [(ev 1, networkDown)]) = [ev 1] \<and>
   Add ((startedBatcher (smallConfig\<lparr>FlushAt := 2\<rparr>))\<lparr>queue := []\<rparr>) (ev 3) networkDown =
     (arrive ((startedBatcher (smallConfig\<lparr>FlushAt := 2\<rparr>))\<lparr>queue := []\<rparr>) [ev 3], None) \<and>
   snd (Add (adds (startedBatcher (smallConfig\<lparr>FlushAt := 2\<rparr>)) [(ev 1, networkDown)])
          (ev 2) (networkDown\<lparr>during := [ev 3]\<rparr>)) = None \<and>
   queue (fst (Add (adds (startedBatcher (smallConfig\<lparr>FlushAt := 2\<rparr>)) [(ev 1, networkDown)])
          (ev 2) (networkDown\<lparr>during := [ev 3]\<rparr>))) = [ev 1, ev 2, ev 3] \<and>
   \<not> int (length (queue (fst (Add (adds (startedBatcher (smallConfig\<lparr>FlushAt := 2\<rparr>)) [(ev 1, networkDown)])
          (ev 2) (networkDown\<lparr>during := [ev 3]\<rparr>))))) \<le> MaxQueueSize (smallConfig\<lparr>FlushAt := 2\<rparr>) \<and>
   MaxQueueSize smallConfig = 2 \<and>
   queue (adds (startedBatcher smallConfig) twoCalls) = [ev 1, ev 2] \<and>
   queue (tick (adds (startedBatcher smallConfig) twoCalls) (networkDown\<lparr>during := [ev 3, ev 4]\<rparr>))
     = [ev 1, ev 2, ev 3, ev 4] \<and>
   \<not> int (length (queue (tick (adds (startedBatcher smallConfig) twoCalls)
          (networkDown\<lparr>during := [ev 3, ev 4]\<rparr>)))) \<le> MaxQueueSize smallConfig"
  by (simp add: sample_defs twoCalls_def code_defs tick_def)

section \<open>Flushing\<close>

text \<open>
  C8.  On a batcher whose queue is empty, \<^verbatim>\<open>Flush\<close> returns nil and the whole state is
  what it was, whatever the network would have done: the queue, every metric, and the
  list of requests made (no network call).
\<close>

theorem flush_of_empty_queue_is_noop:
  "queue b = [] \<Longrightarrow> Flush b w = (b, None)"
  by (simp add: Flush_def)

theorem flush_of_empty_queue_is_noop_witness:
  "queue (startedBatcher keyedConfig) = [] \<and>
   Flush (startedBatcher keyedConfig) networkDown = (startedBatcher keyedConfig, None) \<and>
   requests (client (fst (Flush (startedBatcher keyedConfig) networkDown))) = []"
proof -
  have q: "queue (startedBatcher keyedConfig) = []" by (simp add: sample_defs)
  show ?thesis using flush_of_empty_queue_is_noop [OF q, of networkDown] q
    by (simp add: sample_defs)
qed

text \<open>
  C2, as the code has it.  When \<^verbatim>\<open>Flush\<close> takes a non-empty snapshot and the transport
  returns a retryable error, \<^verbatim>\<open>Flush\<close> returns that error and the queue afterwards is the
  snapshot, in its order, followed by the events appended during the send.  With
  \<^verbatim>\<open>MetricsEnabled\<close> set, \<^verbatim>\<open>retryCount\<close> goes up by one, whatever the size of the
  snapshot; with \<^verbatim>\<open>MetricsEnabled\<close> unset \<^verbatim>\<open>retryCount\<close> stays as it was.
\<close>

theorem retryable_failure_requeues_snapshot:
  assumes "queue b \<noteq> []" and "sendErr b w = Some e" and "IsRetryableError (Some e)"
  shows "snd (Flush b w) = Some e \<and>
         queue (fst (Flush b w)) = queue b @ during w \<and>
         (MetricsEnabled (bconfig b) \<longrightarrow>
            retryCount (metrics (client (fst (Flush b w)))) = retryCount (metrics (client b)) + 1) \<and>
         (\<not> MetricsEnabled (bconfig b) \<longrightarrow>
            retryCount (metrics (client (fst (Flush b w)))) = retryCount (metrics (client b)))"
  using assms Flush_err [of b w] Flush_queue [of b w] Flush_metrics_err [of b w e]
  by (simp add: RecordRetry_def)

theorem retryable_failure_requeues_snapshot_witness:
  "queue ((startedBatcher meteredConfig)\<lparr>queue := [ev 1, ev 2, ev 3]\<rparr>) \<noteq> [] \<and>
   IsRetryableError (sendErr ((startedBatcher meteredConfig)\<lparr>queue := [ev 1, ev 2, ev 3]\<rparr>)
     ((replies 503 ''unavailable'' emptyResponse)\<lparr>during := [ev 4]\<rparr>)) \<and>
   queue (fst (Flush ((startedBatcher meteredConfig)\<lparr>queue := [ev 1, ev 2, ev 3]\<rparr>)
     ((replies 503 ''unavailable'' emptyResponse)\<lparr>during := [ev 4]\<rparr>))) = [ev 1, ev 2, ev 3, ev 4] \<and>
   retryCount (metrics (client (fst (Flush ((startedBatcher meteredConfig)\<lparr>queue := [ev 1, ev 2, ev 3]\<rparr>)
     ((replies 503 ''unavailable'' emptyResponse)\<lparr>during := [ev 4]\<rparr>))))) = 1"
proof -
  let ?b = "(startedBatcher meteredConfig)\<lparr>queue := [ev 1, ev 2, ev 3]\<rparr>"
  let ?w = "(replies 503 ''unavailable'' emptyResponse)\<lparr>during := [ev 4]\<rparr>"
  have q: "queue ?b \<noteq> []" by simp
  have e: "sendErr ?b ?w = Some (LangfuseErr (NewHTTPError 503 ''unavailable''))"
    by (simp add: sendErr_def sample_defs code_defs)
  have r: "IsRetryableError (Some (LangfuseErr (NewHTTPError 503 ''unavailable'')))"
    by (simp add: code_defs)
  have m: "MetricsEnabled (bconfig ?b)" "retryCount (metrics (client ?b)) = 0" "during ?w = [ev 4]"
    by (simp_all add: sample_defs)
  show ?thesis
    using retryable_failure_requeues_snapshot [OF q e r] e r m by simp
qed

text \<open>
  At that input the event that arrived during the send has been counted by its own
  \<^verbatim>\<open>Add\<close>, so \<^verbatim>\<open>eventsEnqueued\<close> is 1 after the flush.
\<close>

lemma arrival_during_send_is_counted:
  "eventsEnqueued (metrics (client (fst (Flush ((startedBatcher meteredConfig)\<lparr>queue := [ev 1, ev 2, ev 3]\<rparr>)
     ((replies 503 ''unavailable'' emptyResponse)\<lparr>during := [ev 4]\<rparr>))))) = 1"
  by (simp add: sample_defs code_defs)

text \<open>
  The claim as the specification states it promises the increment of \<^verbatim>\<open>retryCount\<close>
  for every configuration.  With the default configuration (\<^verbatim>\<open>MetricsEnabled\<close> false) a
  client holding one event flushes into a refused connection: the error is retryable and
  \<^verbatim>\<open>retryCount\<close> stays where it was.
\<close>

theorem retry_count_needs_metrics_counterexample:
  "queue (adds (startedBatcher keyedConfig) [(ev 1, networkDown)]) \<noteq> [] \<and>
   IsRetryableError (sendErr (adds (startedBatcher keyedConfig) [(ev 1, networkDown)]) networkDown) \<and>
   retryCount (metrics (client (fst (Flush (adds (startedBatcher keyedConfig) [(ev 1, networkDown)]) networkDown))))
     \<noteq> retryCount (metrics (client (adds (startedBatcher keyedConfig) [(ev 1, networkDown)]))) + 1"
  by (simp add: sendErr_def sample_defs code_defs)

section \<open>Rejected events and the counters\<close>

text \<open>
  C6, as the code has it.  Whenever \<^verbatim>\<open>Add\<close> returns an error, the error is
  \<^verbatim>\<open>QueueFullError{MaxQueueSize}\<close>, the queue was at capacity, the event is not stored and
  nothing is sent.  With \<^verbatim>\<open>MetricsEnabled\<close> set, \<^verbatim>\<open>eventsDropped\<close> goes up by one; with
  \<^verbatim>\<open>MetricsEnabled\<close> unset no metric changes, \<^verbatim>\<open>eventsEnqueued\<close> included.
\<close>

theorem rejected_add_records_drop:
  assumes "snd (Add b e w) = Some err"
  shows "err = QueueFullError (MaxQueueSize (bconfig b)) \<and>
         MaxQueueSize (bconfig b) \<le> int (length (queue b)) \<and>
         queue (fst (Add b e w)) = queue b \<and>
         requests (client (fst (Add b e w))) = requests (client b) \<and>
         (MetricsEnabled (bconfig b) \<longrightarrow>
            eventsDropped (metrics (client (fst (Add b e w)))) = eventsDropped (metrics (client b)) + 1) \<and>
         (\<not> MetricsEnabled (bconfig b) \<longrightarrow>
            metrics (client (fst (Add b e w))) = metrics (client b))"
  using assms
  by (simp add: Add_def Let_def RecordDropped_def RecordEnqueued_def split: if_splits)

theorem rejected_add_records_drop_witness:
  "snd (Add (adds (startedBatcher (smallConfig\<lparr>MetricsEnabled := True\<rparr>)) twoCalls) (ev 3) networkDown)
     = Some (QueueFullError 2) \<and>
   queue (fst (Add (adds (startedBatcher (smallConfig\<lparr>MetricsEnabled := True\<rparr>)) twoCalls) (ev 3) networkDown))
     = [ev 1, ev 2] \<and>
   eventsDropped (metrics (client
     (fst (Add (adds (startedBatcher (smallConfig\<lparr>MetricsEnabled := True\<rparr>)) twoCalls) (ev 3) networkDown)))) = 1"
proof -
  let ?b = "adds (startedBatcher (smallConfig\<lparr>MetricsEnabled := True\<rparr>)) twoCalls"
  have r: "snd (Add ?b (ev 3) networkDown) = Some (QueueFullError 2)"
    by (simp add: sample_defs twoCalls_def code_defs)
  have s: "queue ?b = [ev 1, ev 2]" "MetricsEnabled (bconfig ?b)"
    "eventsDropped (metrics (client ?b)) = 0"
    by (simp_all add: sample_defs twoCalls_def code_defs)
  show ?thesis
    using rejected_add_records_drop [OF r] r s by simp
qed

text \<open>
  The claim as the specification states it promises the increment of \<^verbatim>\<open>eventsDropped\<close>
  for every configuration.  With \<^verbatim>\<open>MetricsEnabled\<close> false and a capacity of two, the third
  \<^verbatim>\<open>Add\<close> is rejected and \<^verbatim>\<open>eventsDropped\<close> stays where it was.
\<close>

theorem drop_count_needs_metrics_counterexample:
  "snd (Add (adds (startedBatcher smallConfig) twoCalls) (ev 3) networkDown)
     = Some (QueueFullError 2) \<and>
   eventsDropped (metrics (client (fst (Add (adds (startedBatcher smallConfig) twoCalls) (ev 3) networkDown))))
     \<noteq> eventsDropped (metrics (client (adds (startedBatcher smallConfig) twoCalls))) + 1"
  by (simp add: sample_defs twoCalls_def code_defs)

text \<open>
  With \<^verbatim>\<open>MetricsEnabled\<close> set, \<^verbatim>\<open>Add\<close> calls \<^verbatim>\<open>RecordEnqueued\<close> before it looks at the
  capacity, so a rejected event is counted in \<^verbatim>\<open>eventsEnqueued\<close> as well as in
  \<^verbatim>\<open>eventsDropped\<close>.
\<close>

lemma rejected_add_is_counted_as_enqueued:
  "MaxQueueSize (bconfig b) \<le> int (length (queue b)) \<Longrightarrow> MetricsEnabled (bconfig b) \<Longrightarrow>
   eventsEnqueued (metrics (client (fst (Add b e w)))) = eventsEnqueued (metrics (client b)) + 1"
  by (simp add: Add_def Let_def RecordDropped_def RecordEnqueued_def)

section \<open>Failures that are not retried\<close>

text \<open>
  C3, as the code has it.  When \<^verbatim>\<open>Flush\<close> takes a non-empty snapshot and the transport
  returns an error that is not retryable, \<^verbatim>\<open>Flush\<close> returns that error and the snapshot
  is not put back: the queue afterwards holds only what was appended during the send.
  With \<^verbatim>\<open>MetricsEnabled\<close> set, one \<^verbatim>\<open>FailedEvent\<close> per event of the snapshot, in order,
  with that error and attempt 0, is appended to the failed-event buffer, of which the
  last 1000 entries are kept (the oldest go first); so the count becomes the smaller of
  1000 and the old count plus the size of the snapshot.  With \<^verbatim>\<open>MetricsEnabled\<close> unset
  the buffer stays as it was.
\<close>

theorem fatal_failure_discards_snapshot:
  assumes "queue b \<noteq> []" and "sendErr b w = Some e" and "\<not> IsRetryableError (Some e)"
  shows "snd (Flush b w) = Some e \<and>
         queue (fst (Flush b w)) = during w \<and>
         map fEvent (failedOf e (failTime w) 0 (queue b)) = queue b \<and>
         (MetricsEnabled (bconfig b) \<longrightarrow>
            failedEvents (metrics (client (fst (Flush b w)))) =
              keepLast 1000 (failedEvents (metrics (client b)) @ failedOf e (failTime w) 0 (queue b)) \<and>
            FailedEventCount (metrics (client (fst (Flush b w)))) =
              min 1000 (FailedEventCount (metrics (client b)) + length (queue b))) \<and>
         (\<not> MetricsEnabled (bconfig b) \<longrightarrow>
            failedEvents (metrics (client (fst (Flush b w)))) = failedEvents (metrics (client b)))"
proof -
  let ?m = "metrics (client b)"
  let ?r = "recordFailedEvents (RecordEnqueued ?m (length (during w))) (queue b) e (failTime w) 0"
  have fe: "failedEvents ?r = keepLast 1000 (failedEvents ?m @ failedOf e (failTime w) 0 (queue b))"
    using assms(1) by (simp add: recordFailedEvents_failedEvents)
  have n: "length (failedEvents ?r) = min 1000 (length (failedEvents ?m) + length (queue b))"
    by (simp add: fe keepLast_length failedOf_length)
  have m: "metrics (client (fst (Flush b w))) = (if MetricsEnabled (bconfig b) then ?r else ?m)"
    using Flush_metrics_err [OF assms(1,2)] assms(3) by simp
  have "MetricsEnabled (bconfig b) \<longrightarrow>
            failedEvents (metrics (client (fst (Flush b w)))) =
              keepLast 1000 (failedEvents ?m @ failedOf e (failTime w) 0 (queue b)) \<and>
            FailedEventCount (metrics (client (fst (Flush b w)))) =
              min 1000 (FailedEventCount ?m + length (queue b))"
    using m fe n by (simp add: FailedEventCount_def)
  moreover have "\<not> MetricsEnabled (bconfig b) \<longrightarrow>
      failedEvents (metrics (client (fst (Flush b w)))) = failedEvents ?m"
    using m by simp
  moreover have "snd (Flush b w) = Some e" "queue (fst (Flush b w)) = during w"
    using assms Flush_err [of b w] Flush_queue [of b w] by simp_all
  moreover have "map fEvent (failedOf e (failTime w) 0 (queue b)) = queue b"
    by (rule failedOf_events)
  ultimately show ?thesis
    by blast
qed

theorem fatal_failure_discards_snapshot_witness:
  "queue ((startedBatcher meteredConfig)\<lparr>queue := [ev 1, ev 2]\<rparr>) \<noteq> [] \<and>
   sendErr ((startedBatcher meteredConfig)\<lparr>queue := [ev 1, ev 2]\<rparr>) (replies 400 ''bad request'' emptyResponse)
     = Some (LangfuseErr (NewHTTPError 400 ''bad request'')) \<and>
   queue (fst (Flush ((startedBatcher meteredConfig)\<lparr>queue := [ev 1, ev 2]\<rparr>) (replies 400 ''bad request'' emptyResponse))) = [] \<and>
   FailedEventCount (metrics (client (fst (Flush ((startedBatcher meteredConfig)\<lparr>queue := [ev 1, ev 2]\<rparr>)
     (replies 400 ''bad request'' emptyResponse))))) = 2"
proof -
  let ?b = "(startedBatcher meteredConfig)\<lparr>queue := [ev 1, ev 2]\<rparr>"
  let ?w = "replies 400 ''bad request'' emptyResponse"
  have q: "queue ?b \<noteq> []" by simp
  have e: "sendErr ?b ?w = Some (LangfuseErr (NewHTTPError 400 ''bad request''))"
    by (simp add: sendErr_def sample_defs code_defs)
  have r: "\<not> IsRetryableError (Some (LangfuseErr (NewHTTPError 400 ''bad request'')))"
    by (simp add: code_defs)
  have m: "MetricsEnabled (bconfig ?b)" "FailedEventCount (metrics (client ?b)) = 0" "during ?w = []"
    "length (queue ?b) = 2"
    by (simp_all add: sample_defs FailedEventCount_def)
  have "queue (fst (Flush ?b ?w)) = during ?w"
    and "MetricsEnabled (bconfig ?b) \<longrightarrow> FailedEventCount (metrics (client (fst (Flush ?b ?w)))) =
              min 1000 (FailedEventCount (metrics (client ?b)) + length (queue ?b))"
    using fatal_failure_discards_snapshot [OF q e r] by blast+
  then show ?thesis
    using q e m by simp
qed

text \<open>
  The claim as the specification states it promises the records for every
  configuration.  With the default configuration (\<^verbatim>\<open>MetricsEnabled\<close> false) a client
  holding one event flushes and gets HTTP 400: the error is not retryable, the event is
  dropped, and the failed-event buffer stays empty.
\<close>

theorem failed_events_need_metrics_counterexample:
  "queue (adds (startedBatcher keyedConfig) [(ev 1, networkDown)]) \<noteq> [] \<and>
   sendErr (adds (startedBatcher keyedConfig) [(ev 1, networkDown)]) (replies 400 ''bad request'' emptyResponse)
     = Some (LangfuseErr (NewHTTPError 400 ''bad request'')) \<and>
   \<not> IsRetryableError (Some (LangfuseErr (NewHTTPError 400 ''bad request''))) \<and>
   failedEvents (metrics (client (fst (Flush (adds (startedBatcher keyedConfig) [(ev 1, networkDown)])
     (replies 400 ''bad request'' emptyResponse))))) = [] \<and>
   FailedEventCount (metrics (client (fst (Flush (adds (startedBatcher keyedConfig) [(ev 1, networkDown)])
     (replies 400 ''bad request'' emptyResponse)))))
     \<noteq> min 1000 (FailedEventCount (metrics (client (adds (startedBatcher keyedConfig) [(ev 1, networkDown)]))) + 1)"
  by (simp add: sendErr_def FailedEventCount_def sample_defs code_defs)

section \<open>Classification of transport errors\<close>

text \<open>
  C5.  The classification is a function of the outcome of the transport alone.  A
  network failure gives \<^verbatim>\<open>NETWORK_ERROR\<close>, retryable.  A status of 429 gives
  \<^verbatim>\<open>RATE_LIMITED\<close>, retryable; 500 to 599 gives \<^verbatim>\<open>SERVER_ERROR\<close>, retryable; 400 to 499
  other than 429 gives \<^verbatim>\<open>CLIENT_ERROR\<close>, not retryable; any other status gives the code
  \<^verbatim>\<open>HTTP_\<close> followed by the status in decimal, not retryable.  The error always carries
  the status and the body.  An HTTP error is retryable exactly for 429 and 500 to 599, and
  the error \<^verbatim>\<open>sendIngestion\<close> returns is retryable exactly when the request went out and
  met a network failure, a 429 or a 500 to 599.
\<close>

theorem error_classification:
  "Code (NewNetworkError msg) = ''NETWORK_ERROR'' \<and> IsRetryable (NewNetworkError msg) \<and>
   (s = 429 \<longrightarrow> Code (NewHTTPError s body) = ''RATE_LIMITED'' \<and> IsRetryable (NewHTTPError s body)) \<and>
   (500 \<le> s \<and> s < 600 \<longrightarrow>
      Code (NewHTTPError s body) = ''SERVER_ERROR'' \<and> IsRetryable (NewHTTPError s body)) \<and>
   (400 \<le> s \<and> s < 500 \<and> s \<noteq> 429 \<longrightarrow>
      Code (NewHTTPError s body) = ''CLIENT_ERROR'' \<and> \<not> IsRetryable (NewHTTPError s body)) \<and>
   (s < 400 \<or> 600 \<le> s \<longrightarrow>
      Code (NewHTTPError s body) = ''HTTP_'' @ sprintf_d s \<and> \<not> IsRetryable (NewHTTPError s body)) \<and>
   StatusCode (NewHTTPError s body) = s \<and> Message (NewHTTPError s body) = body \<and>
   (IsRetryable (NewHTTPError s body) \<longleftrightarrow> s = 429 \<or> (500 \<le> s \<and> s < 600)) \<and>
   (IsRetryableError (snd (snd (sendIngestion c w req))) \<longleftrightarrow>
      Enabled (config c) \<and> marshalErr w = None \<and> requestErr w = None \<and>
      (case http w of
         DoError m \<Rightarrow> True
       | ReadError m \<Rightarrow> True
       | Response s' body' \<Rightarrow> s' = 429 \<or> (500 \<le> s' \<and> s' < 600)))"
proof -
  have net: "Code (NewNetworkError m) = ''NETWORK_ERROR'' \<and> IsRetryable (NewNetworkError m)" for m
    by (simp add: NewNetworkError_def IsRetryable_def)
  have http: "(s = 429 \<longrightarrow> Code (NewHTTPError s body) = ''RATE_LIMITED'' \<and> IsRetryable (NewHTTPError s body)) \<and>
   (500 \<le> s \<and> s < 600 \<longrightarrow>
      Code (NewHTTPError s body) = ''SERVER_ERROR'' \<and> IsRetryable (NewHTTPError s body)) \<and>
   (400 \<le> s \<and> s < 500 \<and> s \<noteq> 429 \<longrightarrow>
      Code (NewHTTPError s body) = ''CLIENT_ERROR'' \<and> \<not> IsRetryable (NewHTTPError s body)) \<and>
   (s < 400 \<or> 600 \<le> s \<longrightarrow>
      Code (NewHTTPError s body) = ''HTTP_'' @ sprintf_d s \<and> \<not> IsRetryable (NewHTTPError s body)) \<and>
   StatusCode (NewHTTPError s body) = s \<and> Message (NewHTTPError s body) = body"
    by (simp add: NewHTTPError_def IsRetryable_def StatusTooManyRequests_def Let_def)
  have iff: "IsRetryable (NewHTTPError s' body') \<longleftrightarrow> s' = 429 \<or> (500 \<le> s' \<and> s' < 600)" for s' body'
    by (simp add: NewHTTPError_def IsRetryable_def StatusTooManyRequests_def Let_def)
  have send: "IsRetryableError (snd (snd (sendIngestion c w req))) \<longleftrightarrow>
      Enabled (config c) \<and> marshalErr w = None \<and> requestErr w = None \<and>
      (case http w of
         DoError m \<Rightarrow> True
       | ReadError m \<Rightarrow> True
       | Response s' body' \<Rightarrow> s' = 429 \<or> (500 \<le> s' \<and> s' < 600))"
    by (auto simp add: sendIngestion_def Let_def iff net StatusOK_def StatusMultiStatus_def
        split: option.splits http_result.splits sum.splits)
  show ?thesis using net [of msg] http iff [of s body] send by blast
qed

theorem error_classification_witness:
  "Code (NewHTTPError 429 ''slow down'') = ''RATE_LIMITED'' \<and> IsRetryable (NewHTTPError 429 ''slow down'') \<and>
   Code (NewHTTPError 503 ''unavailable'') = ''SERVER_ERROR'' \<and> IsRetryable (NewHTTPError 503 ''unavailable'') \<and>
   Code (NewHTTPError 404 ''not found'') = ''CLIENT_ERROR'' \<and> \<not> IsRetryable (NewHTTPError 404 ''not found'') \<and>
   Code (NewHTTPError 302 ''moved'') = ''HTTP_302'' \<and> \<not> IsRetryable (NewHTTPError 302 ''moved'') \<and>
   StatusCode (NewHTTPError 302 ''moved'') = 302"
proof -
  have d: "sprintf_d 302 = ''302''"
    by (simp add: sprintf_d_def decimal.simps digit_def)
  show ?thesis
    using error_classification [of "''x''" 429 "''slow down''" "newClient keyedConfig" networkDown "[]"]
      error_classification [of "''x''" 503 "''unavailable''" "newClient keyedConfig" networkDown "[]"]
      error_classification [of "''x''" 404 "''not found''" "newClient keyedConfig" networkDown "[]"]
      error_classification [of "''x''" 302 "''moved''" "newClient keyedConfig" networkDown "[]"] d
    by simp
qed

section \<open>The size-triggered flush\<close>

lemma Add_below:
  "int (length (queue b)) < MaxQueueSize (bconfig b) \<Longrightarrow>
   int (length (queue b)) + 1 < FlushAt (bconfig b) \<Longrightarrow>
   Add b e w = ((with_metrics (\<lambda>m. RecordEnqueued m 1) b)\<lparr>queue := queue b @ [e]\<rparr>, None)"
  by (simp add: Add_def Let_def)

lemma Add_at_threshold:
  "int (length (queue b)) < MaxQueueSize (bconfig b) \<Longrightarrow>
   FlushAt (bconfig b) \<le> int (length (queue b)) + 1 \<Longrightarrow>
   Add b e w = (fst (Flush ((with_metrics (\<lambda>m. RecordEnqueued m 1) b)\<lparr>queue := queue b @ [e]\<rparr>) w), None)"
  by (simp add: Add_def Let_def)

lemma adds_append: "adds b (xs @ ys) = adds (adds b xs) ys"
  by (induction b xs rule: adds.induct) simp_all

lemma adds_below:
  "int (length (queue b) + length cs) \<le> MaxQueueSize (bconfig b) \<Longrightarrow>
   int (length (queue b) + length cs) < FlushAt (bconfig b) \<Longrightarrow>
   queue (adds b cs) = queue b @ map fst cs \<and>
   config (client (adds b cs)) = config (client b) \<and>
   eventsFlushed (metrics (client (adds b cs))) = eventsFlushed (metrics (client b)) \<and>
   flushCount (metrics (client (adds b cs))) = flushCount (metrics (client b)) \<and>
   (\<not> MetricsEnabled (bconfig b) \<longrightarrow> metrics (client (adds b cs)) = metrics (client b))"
proof (induction b cs rule: adds.induct)
  case (1 b)
  then show ?case by simp
next
  case (2 b e w cs)
  let ?b1 = "(with_metrics (\<lambda>m. RecordEnqueued m 1) b)\<lparr>queue := queue b @ [e]\<rparr>"
  have a: "Add b e w = (?b1, None)"
    using "2.prems" by (intro Add_below) simp_all
  have "int (length (queue ?b1) + length cs) \<le> MaxQueueSize (bconfig ?b1)"
    "int (length (queue ?b1) + length cs) < FlushAt (bconfig ?b1)"
    using "2.prems" by simp_all
  then show ?case
    using "2.IH" a by (simp add: RecordEnqueued_def)
qed

text \<open>
  C4, as the code has it.  Take a batcher as \<^verbatim>\<open>NewBatcher\<close> makes it, with
  \<^verbatim>\<open>FlushAt = k\<close> where \<open>1 \<le> k \<le> MaxQueueSize\<close>, and \<open>k\<close> calls of \<^verbatim>\<open>Add\<close> run one
  after another.  Only the \<open>k\<close>-th call sends; if its send succeeds, then when that
  call returns the queue holds none of the \<open>k\<close> events: it holds what was appended during
  the send, so it is empty when nothing was.  With \<^verbatim>\<open>MetricsEnabled\<close> set, \<^verbatim>\<open>eventsFlushed\<close> has gone up by
  the number of per-item results in the response (successes plus errors), which is \<open>k\<close>
  when the server reports every event once, and \<^verbatim>\<open>flushCount\<close> by one.  With
  \<^verbatim>\<open>MetricsEnabled\<close> unset no metric has changed.
\<close>

theorem threshold_flush_empties_queue:
  assumes fresh: "NewBatcher c cfg = Some b0"
    and k: "FlushAt cfg = int k" "0 < k" "int k \<le> MaxQueueSize cfg"
    and len: "length cs = k"
    and ok: "succeeds c (snd (last cs))"
  shows "queue (adds b0 cs) = during (snd (last cs)) \<and>
         (MetricsEnabled cfg \<longrightarrow>
            eventsFlushed (metrics (client (adds b0 cs))) =
              eventsFlushed (metrics c) +
                of_nat (fst (reported (answer c (snd (last cs)))) + snd (reported (answer c (snd (last cs))))) \<and>
            flushCount (metrics (client (adds b0 cs))) = flushCount (metrics c) + 1) \<and>
         (\<not> MetricsEnabled cfg \<longrightarrow> metrics (client (adds b0 cs)) = metrics c)"
proof -
  have b0: "bconfig b0 = cfg" "queue b0 = []" "client b0 = c"
    using fresh by (auto simp add: NewBatcher_def split: if_splits)
  have ne: "cs \<noteq> []" using len k(2) by auto
  obtain e w where lst: "last cs = (e, w)" by (cases "last cs")
  let ?pre = "butlast cs"
  let ?b = "adds b0 ?pre"
  have cs: "cs = ?pre @ [(e, w)]" using ne lst by (metis append_butlast_last_id)
  have lp: "length ?pre + 1 = k" using len k(2) by simp
  have pre: "queue ?b = map fst ?pre"
    "config (client ?b) = config c"
    "eventsFlushed (metrics (client ?b)) = eventsFlushed (metrics c)"
    "flushCount (metrics (client ?b)) = flushCount (metrics c)"
    "\<not> MetricsEnabled cfg \<longrightarrow> metrics (client ?b) = metrics c"
    using adds_below [of b0 ?pre] b0 k lp by simp_all
  let ?b2 = "(with_metrics (\<lambda>m. RecordEnqueued m 1) ?b)\<lparr>queue := queue ?b @ [e]\<rparr>"
  have a: "Add ?b e w = (fst (Flush ?b2 w), None)"
    using pre(1) b0 k lp by (intro Add_at_threshold) simp_all
  have fin: "adds b0 cs = fst (Flush ?b2 w)"
    using a by (subst cs) (simp add: adds_append)
  have q2: "queue ?b2 \<noteq> []" by simp
  have "snd (sendIngestion (client ?b2) w (queue ?b2)) = snd (sendIngestion c w [])"
    by (rule sendIngestion_err_indep) (simp add: pre(2))
  then have s: "sendErr ?b2 w = None" "sendResp ?b2 w = answer c w"
    using ok lst by (simp_all add: sendErr_def sendResp_def succeeds_def answer_def)
  have q: "queue (fst (Flush ?b2 w)) = during w"
    using Flush_queue [OF q2, of w] s(1) by simp
  have m: "metrics (client (fst (Flush ?b2 w))) =
     (if \<not> MetricsEnabled cfg then metrics (client ?b2)
      else RecordFlush (RecordEnqueued (metrics (client ?b2)) (length (during w)))
             (fst (reported (answer c w))) (snd (reported (answer c w))) (flushTime w))"
    using Flush_metrics_ok [OF q2 s(1)] s(2) b0 by simp
  have m2: "metrics (client ?b2) =
     (if MetricsEnabled cfg then RecordEnqueued (metrics (client ?b)) 1 else metrics (client ?b))"
    using b0 by simp
  show ?thesis
    using fin q m m2 pre lst by (simp add: RecordFlush_def RecordEnqueued_def)
qed

theorem threshold_flush_empties_queue_witness:
  "NewBatcher (newClient (meteredConfig\<lparr>FlushAt := 2\<rparr>)) (meteredConfig\<lparr>FlushAt := 2\<rparr>)
     = Some (newBatcher (meteredConfig\<lparr>FlushAt := 2\<rparr>)) \<and>
   succeeds (newClient (meteredConfig\<lparr>FlushAt := 2\<rparr>)) (snd (last okCalls)) \<and>
   queue (adds (newBatcher (meteredConfig\<lparr>FlushAt := 2\<rparr>)) okCalls) = [] \<and>
   eventsFlushed (metrics (client (adds (newBatcher (meteredConfig\<lparr>FlushAt := 2\<rparr>)) okCalls))) = 2 \<and>
   flushCount (metrics (client (adds (newBatcher (meteredConfig\<lparr>FlushAt := 2\<rparr>)) okCalls))) = 1"
proof -
  let ?cfg = "meteredConfig\<lparr>FlushAt := 2\<rparr>"
  have fresh: "NewBatcher (newClient ?cfg) ?cfg = Some (newBatcher ?cfg)"
    by (simp add: sample_defs okCalls_def code_defs)
  have k: "FlushAt ?cfg = int 2" "0 < (2::nat)" "int 2 \<le> MaxQueueSize ?cfg" "length okCalls = 2"
    by (simp_all add: sample_defs okCalls_def more_defs)
  have ok: "succeeds (newClient ?cfg) (snd (last okCalls))"
    by (simp add: sample_defs okCalls_def more_defs code_defs)
  have d: "during (snd (last okCalls)) = []"
    by (simp add: sample_defs okCalls_def more_defs)
  have r: "reported (answer (newClient ?cfg) (snd (last okCalls))) = (2, 0)"
    by (simp add: sample_defs okCalls_def more_defs code_defs)
  have m: "MetricsEnabled ?cfg" "eventsFlushed (metrics (newClient ?cfg)) = 0"
    "flushCount (metrics (newClient ?cfg)) = 0"
    by (simp_all add: sample_defs okCalls_def)
  show ?thesis
    using threshold_flush_empties_queue [OF fresh k ok] fresh ok d r m by simp
qed

text \<open>
  The claim as the specification states it fails in three ways.  A server that answers
  200 with an empty body has accepted the batch, and \<^verbatim>\<open>eventsFlushed\<close> does not move.
  With the default \<^verbatim>\<open>MetricsEnabled = false\<close> it does not move either.  And with
  \<^verbatim>\<open>MaxQueueSize = 2\<close> and \<^verbatim>\<open>FlushAt = 3\<close>, which \<^verbatim>\<open>Validate\<close> accepts, the third
  \<^verbatim>\<open>Add\<close> is rejected and the two queued events are never flushed by \<^verbatim>\<open>Add\<close>.
\<close>

theorem flushed_count_counterexample:
  "succeeds (newClient (meteredConfig\<lparr>FlushAt := 2\<rparr>)) (replies 200 [] emptyResponse) \<and>
   queue (adds (newBatcher (meteredConfig\<lparr>FlushAt := 2\<rparr>)) emptyCalls) = [] \<and>
   eventsFlushed (metrics (client (adds (newBatcher (meteredConfig\<lparr>FlushAt := 2\<rparr>)) emptyCalls)))
     \<noteq> eventsFlushed (metrics (client (newBatcher (meteredConfig\<lparr>FlushAt := 2\<rparr>)))) + 2 \<and>
   succeeds (newClient (keyedConfig\<lparr>FlushAt := 2\<rparr>)) (replies 200 ''{...}'' (accepted 2)) \<and>
   eventsFlushed (metrics (client (adds (newBatcher (keyedConfig\<lparr>FlushAt := 2\<rparr>)) okCalls)))
     \<noteq> eventsFlushed (metrics (client (newBatcher (keyedConfig\<lparr>FlushAt := 2\<rparr>)))) + 2 \<and>
   length (queue (adds (newBatcher (smallConfig\<lparr>FlushAt := 3\<rparr>))
     (okCalls @ [(ev 3, replies 200 ''{...}'' (accepted 3))]))) \<noteq> 0"
  by (simp add: sample_defs okCalls_def emptyCalls_def more_defs code_defs)

section \<open>Closing the client\<close>

text \<open>
  C7.  The first \<^verbatim>\<open>Close\<close> of a client with a batcher marks the client closed, closes
  the \<^verbatim>\<open>done\<close> channel (after which a tick of the loop does nothing), runs one \<^verbatim>\<open>Flush\<close>
  and returns its error; on a client without a batcher it only marks the client closed.
  A \<^verbatim>\<open>Close\<close> of a closed client returns nil and leaves the whole state as it was, so it
  sends nothing.  An \<^verbatim>\<open>enqueue\<close> on a closed client returns the error "client is closed"
  and leaves the whole state, the queue included, as it was.  Both hold in particular
  for the client that a \<^verbatim>\<open>Close\<close> returns.
\<close>

theorem close_is_idempotent:
  "(\<not> closed (client b) \<and> \<not> doneCh b \<longrightarrow>
      ClientClose (WithBatcher b) w =
        Some (WithBatcher (fst (Flush (b\<lparr>client := (client b)\<lparr>closed := True\<rparr>, doneCh := True\<rparr>) w)),
              snd (Flush (b\<lparr>client := (client b)\<lparr>closed := True\<rparr>, doneCh := True\<rparr>) w)) \<and>
      closed (client (fst (Flush (b\<lparr>client := (client b)\<lparr>closed := True\<rparr>, doneCh := True\<rparr>) w))) \<and>
      doneCh (fst (Flush (b\<lparr>client := (client b)\<lparr>closed := True\<rparr>, doneCh := True\<rparr>) w)) \<and>
      tick (fst (Flush (b\<lparr>client := (client b)\<lparr>closed := True\<rparr>, doneCh := True\<rparr>) w)) w' =
        fst (Flush (b\<lparr>client := (client b)\<lparr>closed := True\<rparr>, doneCh := True\<rparr>) w)) \<and>
   (\<not> closed c \<longrightarrow> ClientClose (NoBatcher c) w = Some (NoBatcher (c\<lparr>closed := True\<rparr>), None)) \<and>
   (closed (self p) \<longrightarrow> ClientClose p w = Some (p, None)) \<and>
   (closed (self p) \<longrightarrow> enqueue p e w = Some (p, Some (Errorf ''client is closed''))) \<and>
   (ClientClose p w = Some (p', r) \<longrightarrow>
      closed (self p') \<and> ClientClose p' w' = Some (p', None) \<and>
      enqueue p' e w'' = Some (p', Some (Errorf ''client is closed'')))"
proof -
  have first: "\<not> closed (client b) \<and> \<not> doneCh b \<longrightarrow>
      ClientClose (WithBatcher b) w =
        Some (WithBatcher (fst (Flush (b\<lparr>client := (client b)\<lparr>closed := True\<rparr>, doneCh := True\<rparr>) w)),
              snd (Flush (b\<lparr>client := (client b)\<lparr>closed := True\<rparr>, doneCh := True\<rparr>) w)) \<and>
      closed (client (fst (Flush (b\<lparr>client := (client b)\<lparr>closed := True\<rparr>, doneCh := True\<rparr>) w))) \<and>
      doneCh (fst (Flush (b\<lparr>client := (client b)\<lparr>closed := True\<rparr>, doneCh := True\<rparr>) w)) \<and>
      tick (fst (Flush (b\<lparr>client := (client b)\<lparr>closed := True\<rparr>, doneCh := True\<rparr>) w)) w' =
        fst (Flush (b\<lparr>client := (client b)\<lparr>closed := True\<rparr>, doneCh := True\<rparr>) w)"
    by (simp add: BatcherClose_def tick_def split: prod.splits)
  have bare: "\<not> closed c \<longrightarrow> ClientClose (NoBatcher c) w = Some (NoBatcher (c\<lparr>closed := True\<rparr>), None)"
    by simp
  have again: "closed (self q) \<Longrightarrow> ClientClose q v = Some (q, None)" for q v
    by (cases q) simp_all
  have late: "closed (self q) \<Longrightarrow> enqueue q e v = Some (q, Some (Errorf ''client is closed''))" for q v
    by (cases q) simp_all
  have closes: "closed (self p')" if c: "ClientClose p w = Some (p', r)"
  proof (cases p)
    case (NoBatcher c0)
    then show ?thesis using c by (auto split: if_splits)
  next
    case (WithBatcher b0)
    show ?thesis
    proof (cases "closed (client b0)")
      case True
      then show ?thesis using c WithBatcher by auto
    next
      case False
      let ?b1 = "b0\<lparr>client := (client b0)\<lparr>closed := True\<rparr>, doneCh := True\<rparr>"
      have "p' = WithBatcher (fst (Flush ?b1 w))"
        using c WithBatcher False
        by (auto simp add: BatcherClose_def split: if_splits option.splits prod.splits)
      then show ?thesis by simp
    qed
  qed
  show ?thesis
    using first bare again late closes by blast
qed

theorem close_is_idempotent_witness:
  "ClientClose (WithBatcher ((startedBatcher keyedConfig)\<lparr>queue := [ev 1]\<rparr>)) networkDown =
     Some (WithBatcher ((startedBatcher keyedConfig)
             \<lparr>client := (newClient keyedConfig)\<lparr>closed := True, requests := [[ev 1]]\<rparr>,
              queue := [ev 1], doneCh := True\<rparr>),
           Some (LangfuseErr (NewNetworkError ''connection refused''))) \<and>
   ClientClose (WithBatcher ((startedBatcher keyedConfig)
             \<lparr>client := (newClient keyedConfig)\<lparr>closed := True, requests := [[ev 1]]\<rparr>,
              queue := [ev 1], doneCh := True\<rparr>)) networkDown =
     Some (WithBatcher ((startedBatcher keyedConfig)
             \<lparr>client := (newClient keyedConfig)\<lparr>closed := True, requests := [[ev 1]]\<rparr>,
              queue := [ev 1], doneCh := True\<rparr>), None) \<and>
   enqueue (WithBatcher ((startedBatcher keyedConfig)
             \<lparr>client := (newClient keyedConfig)\<lparr>closed := True, requests := [[ev 1]]\<rparr>,
              queue := [ev 1], doneCh := True\<rparr>)) (ev 2) networkDown =
     Some (WithBatcher ((startedBatcher keyedConfig)
             \<lparr>client := (newClient keyedConfig)\<lparr>closed := True, requests := [[ev 1]]\<rparr>,
              queue := [ev 1], doneCh := True\<rparr>), Some (Errorf ''client is closed''))"
proof -
  let ?p = "WithBatcher ((startedBatcher keyedConfig)\<lparr>queue := [ev 1]\<rparr>)"
  let ?p' = "WithBatcher ((startedBatcher keyedConfig)
             \<lparr>client := (newClient keyedConfig)\<lparr>closed := True, requests := [[ev 1]]\<rparr>,
              queue := [ev 1], doneCh := True\<rparr>)"
  have c: "ClientClose ?p networkDown = Some (?p', Some (LangfuseErr (NewNetworkError ''connection refused'')))"
    by (simp add: BatcherClose_def sample_defs code_defs)
  show ?thesis
    using close_is_idempotent [where p = ?p and w = networkDown and p' = ?p'
        and r = "Some (LangfuseErr (NewNetworkError ''connection refused''))" and e = "ev 2"
        and w' = networkDown and w'' = networkDown] c
    by simp
qed

section \<open>The disabled client\<close>

text \<open>
  C10.  With \<^verbatim>\<open>Enabled = false\<close> and a configuration that \<^verbatim>\<open>Validate\<close> accepts,
  \<^verbatim>\<open>NewClient\<close> returns a client without a batcher: none is made and none is started.
  On a client that is not enabled and not closed, \<^verbatim>\<open>enqueue\<close> returns nil and
  \<^verbatim>\<open>Client.Flush\<close> returns nil, and each leaves the whole state as it was: nothing is
  queued, nothing is sent, no metric moves.
\<close>

theorem disabled_client_is_inert:
  "(Validate cfg = None \<and> \<not> Enabled cfg \<longrightarrow>
      NewClient (Some cfg) = Some (Inr (NoBatcher (newClient cfg)))) \<and>
   (NewClient (Some cfg) = Some (Inr p) \<and> \<not> Enabled cfg \<longrightarrow>
      p = NoBatcher (newClient cfg) \<and> batcher p = None) \<and>
   (\<not> Enabled (config (self q)) \<and> \<not> closed (self q) \<longrightarrow>
      enqueue q e w = Some (q, None) \<and> ClientFlush q w = (q, None))"
proof -
  have "\<not> Enabled (config (self q)) \<and> \<not> closed (self q) \<longrightarrow>
      enqueue q e w = Some (q, None) \<and> ClientFlush q w = (q, None)"
    by (cases q) simp_all
  moreover have "Validate cfg = None \<and> \<not> Enabled cfg \<longrightarrow>
      NewClient (Some cfg) = Some (Inr (NoBatcher (newClient cfg)))"
    by (simp add: NewClient_def newClient_def)
  moreover have "NewClient (Some cfg) = Some (Inr p) \<and> \<not> Enabled cfg \<longrightarrow>
      p = NoBatcher (newClient cfg) \<and> batcher p = None"
    by (auto simp add: NewClient_def newClient_def split: option.splits)
  ultimately show ?thesis by blast
qed

theorem disabled_client_is_inert_witness:
  "NewClient (Some (keyedConfig\<lparr>Enabled := False\<rparr>)) =
     Some (Inr (NoBatcher (newClient (keyedConfig\<lparr>Enabled := False\<rparr>)))) \<and>
   enqueue (NoBatcher (newClient (keyedConfig\<lparr>Enabled := False\<rparr>))) (ev 1) networkDown =
     Some (NoBatcher (newClient (keyedConfig\<lparr>Enabled := False\<rparr>)), None) \<and>
   ClientFlush (NoBatcher (newClient (keyedConfig\<lparr>Enabled := False\<rparr>))) networkDown =
     (NoBatcher (newClient (keyedConfig\<lparr>Enabled := False\<rparr>)), None)"
proof -
  let ?cfg = "keyedConfig\<lparr>Enabled := False\<rparr>"
  have v: "Validate ?cfg = None" "\<not> Enabled ?cfg"
    by (simp_all add: sample_defs code_defs)
  have s: "\<not> Enabled (config (self (NoBatcher (newClient ?cfg))))"
    "\<not> closed (self (NoBatcher (newClient ?cfg)))"
    by (simp_all add: sample_defs)
  show ?thesis
    using disabled_client_is_inert [where cfg = ?cfg and q = "NoBatcher (newClient ?cfg)"
        and e = "ev 1" and w = networkDown] v s
    by blast
qed

section \<open>The retry settings\<close>

lemma setRetry_fields [simp]:
  "MetricsEnabled (setRetry a d x cfg) = MetricsEnabled cfg"
  "MaxQueueSize (setRetry a d x cfg) = MaxQueueSize cfg"
  "FlushAt (setRetry a d x cfg) = FlushAt cfg"
  "Enabled (setRetry a d x cfg) = Enabled cfg"
  "OnEventFlushed (setRetry a d x cfg) = OnEventFlushed cfg"
  "OnEventDropped (setRetry a d x cfg) = OnEventDropped cfg"
  by (simp_all add: setRetry_def)

lemma retune_with_metrics: "with_metrics f (retune a d x b) = retune a d x (with_metrics f b)"
  by (simp add: with_metrics_def retune_def)

lemma retune_arrive: "arrive (retune a d x b) es = retune a d x (arrive b es)"
proof (induction b es rule: arrive.induct)
  case (1 b)
  show ?case by simp
next
  case (2 b e es)
  have "(with_metrics (\<lambda>m. RecordEnqueued m 1) (retune a d x b))\<lparr>queue := queue (retune a d x b) @ [e]\<rparr>
      = retune a d x ((with_metrics (\<lambda>m. RecordEnqueued m 1) b)\<lparr>queue := queue b @ [e]\<rparr>)"
    by (simp add: retune_with_metrics) (simp add: retune_def)
  then show ?case using "2.IH" by simp
qed

lemma retune_handleFlushError:
  "handleFlushError (retune a d x b) es err w = retune a d x (handleFlushError b es err w)"
proof -
  have q: "queue (retune a d x b') = queue b'" for b'
    by (simp add: retune_def)
  have u: "(retune a d x b')\<lparr>queue := qs\<rparr> = retune a d x (b'\<lparr>queue := qs\<rparr>)" for b' qs
    by (simp add: retune_def)
  show ?thesis
    by (cases err) (simp_all add: handleFlushError_def Let_def retune_with_metrics q u)
qed

lemma retune_sendIngestion:
  "sendIngestion (c\<lparr>config := setRetry a d x (config c)\<rparr>) w req =
     ((fst (sendIngestion c w req))\<lparr>config := setRetry a d x (config c)\<rparr>, snd (sendIngestion c w req))"
  by (simp add: sendIngestion_def Let_def split: option.splits http_result.splits sum.splits)

lemma retune_Flush:
  "Flush (retune a d x b) w = (retune a d x (fst (Flush b w)), snd (Flush b w))"
proof (cases "queue b = []")
  case True
  then show ?thesis by (simp add: Flush_def retune_def)
next
  case False
  obtain c' resp err where s: "sendIngestion (client b) w (queue b) = (c', resp, err)"
    by (cases "sendIngestion (client b) w (queue b)") auto
  have cfg: "config c' = config (client b)"
    using sendIngestion_frame [of "client b" w "queue b"] s by simp
  have s': "sendIngestion (client (retune a d x b)) w (queue b) =
      (c'\<lparr>config := setRetry a d x (config (client b))\<rparr>, resp, err)"
    using retune_sendIngestion [where c = "client b" and a = a and d = d and x = x and w = w and req = "queue b"] s by (simp add: retune_def)
  have r0: "(retune a d x b)\<lparr>queue := [], client := c'\<lparr>config := setRetry a d x (config (client b))\<rparr>\<rparr>
      = retune a d x (b\<lparr>queue := [], client := c'\<rparr>)"
    using cfg by (simp add: retune_def)
  have r: "arrive ((retune a d x b)\<lparr>queue := [],
              client := c'\<lparr>config := setRetry a d x (config (client b))\<rparr>\<rparr>) (during w)
      = retune a d x (arrive (b\<lparr>queue := [], client := c'\<rparr>) (during w))"
    by (simp only: r0 retune_arrive)
  have q: "queue (retune a d x b) = queue b" by (simp add: retune_def)
  have u: "(retune a d x b')\<lparr>spawned := sp\<rparr> = retune a d x (b'\<lparr>spawned := sp\<rparr>)" for b' sp
    by (simp add: retune_def)
  have f: "bconfig (retune a d x b') = setRetry a d x (bconfig b')" "spawned (retune a d x b') = spawned b'" for b'
    by (simp_all add: retune_def)
  show ?thesis
    using False s s' r
    by (cases err) (simp_all add: Flush_def Let_def q retune_handleFlushError retune_with_metrics u f)
qed

lemma retune_Add:
  "Add (retune a d x b) e w = (retune a d x (fst (Add b e w)), snd (Add b e w))"
proof -
  have q: "queue (retune a d x b') = queue b'" "bconfig (retune a d x b') = setRetry a d x (bconfig b')"
    "spawned (retune a d x b') = spawned b'" for b'
    by (simp_all add: retune_def)
  have u: "(retune a d x b')\<lparr>spawned := sp\<rparr> = retune a d x (b'\<lparr>spawned := sp\<rparr>)"
    "(retune a d x b')\<lparr>queue := qs\<rparr> = retune a d x (b'\<lparr>queue := qs\<rparr>)" for b' sp qs
    by (simp_all add: retune_def)
  show ?thesis
    by (simp add: Add_def Let_def retune_with_metrics q u retune_Flush)
qed

text \<open>
  C9.  \<^verbatim>\<open>MaxRetryAttempts\<close>, \<^verbatim>\<open>RetryBaseDelay\<close> and \<^verbatim>\<open>RetryMaxDelay\<close> are never read.
  Running \<^verbatim>\<open>Add\<close>, \<^verbatim>\<open>Flush\<close> or \<^verbatim>\<open>handleFlushError\<close> from a state in which these three
  fields have been given any other values returns the same error and the same state
  (queue, metrics, requests, callbacks), with the three fields still at those values.
  A retryable error always puts the whole snapshot back in front of the queue; the
  \<^verbatim>\<open>attempts\<close> map is never written.
\<close>

theorem retry_settings_have_no_effect:
  "Add (retune a d x b) e w = (retune a d x (fst (Add b e w)), snd (Add b e w)) \<and>
   Flush (retune a d x b) w = (retune a d x (fst (Flush b w)), snd (Flush b w)) \<and>
   handleFlushError (retune a d x b) es err w = retune a d x (handleFlushError b es err w) \<and>
   (IsRetryableError (Some err) \<longrightarrow>
      queue (handleFlushError b es err w) = es @ queue b \<and>
      attempts (handleFlushError b es err w) = attempts b)"
  by (simp add: retune_Add retune_Flush retune_handleFlushError handleFlushError_queue)

theorem retry_settings_have_no_effect_witness:
  "Flush (retune 0 0 0 ((startedBatcher meteredConfig)\<lparr>queue := [ev 1]\<rparr>)) networkDown =
     (retune 0 0 0 (fst (Flush ((startedBatcher meteredConfig)\<lparr>queue := [ev 1]\<rparr>) networkDown)),
      Some (LangfuseErr (NewNetworkError ''connection refused''))) \<and>
   IsRetryableError (Some (LangfuseErr (NewNetworkError ''connection refused''))) \<and>
   queue (handleFlushError ((startedBatcher meteredConfig)\<lparr>queue := [ev 3]\<rparr>) [ev 1, ev 2]
     (LangfuseErr (NewNetworkError ''connection refused'')) networkDown) = [ev 1, ev 2, ev 3]"
proof -
  let ?b = "(startedBatcher meteredConfig)\<lparr>queue := [ev 1]\<rparr>"
  have e: "snd (Flush ?b networkDown) = Some (LangfuseErr (NewNetworkError ''connection refused''))"
    by (simp add: sample_defs code_defs)
  have r: "IsRetryableError (Some (LangfuseErr (NewNetworkError ''connection refused'')))"
    by (simp add: code_defs)
  show ?thesis
    using retry_settings_have_no_effect [where a = 0 and d = 0 and x = 0 and b = ?b and w = networkDown]
      retry_settings_have_no_effect [where b = "(startedBatcher meteredConfig)\<lparr>queue := [ev 3]\<rparr>"
        and es = "[ev 1, ev 2]" and err = "LangfuseErr (NewNetworkError ''connection refused'')"
        and w = networkDown] e r
    by simp
qed

end
